theory Spec2Isabelle
  imports Complex_Main "HOL-Library.Multiset"
begin

section \<open>JavaScript values used by the services\<close>

text \<open>
  Strings are \<open>string\<close>; a property that may be \<open>undefined\<close> is an \<open>option\<close>.
  A JavaScript string is truthy when it is non-empty, so \<open>a || b\<close> on optional strings
  takes \<open>a\<close> when it is present and non-empty and \<open>b\<close> otherwise.
\<close>

definition truthy :: "string option \<Rightarrow> bool" where
  "truthy a = (case a of None \<Rightarrow> False | Some s \<Rightarrow> s \<noteq> [])"

definition js_or :: "string option \<Rightarrow> string option \<Rightarrow> string option" where
  "js_or a b = (if truthy a then a else b)"

definition js_or_str :: "string option \<Rightarrow> string \<Rightarrow> string" where
  "js_or_str a b = (case a of None \<Rightarrow> b | Some s \<Rightarrow> if s \<noteq> [] then s else b)"

definition toUpperCase_char :: "char \<Rightarrow> char" where
  "toUpperCase_char c =
     (let n = (of_char c :: nat) in if 97 \<le> n \<and> n \<le> 122 then char_of (n - 32) else c)"

text \<open>\<open>s.charAt(0).toUpperCase() + s.slice(1)\<close> (ASCII letters).\<close>

definition capitalize :: "string \<Rightarrow> string" where
  "capitalize s = (case s of [] \<Rightarrow> [] | c # cs \<Rightarrow> toUpperCase_char c # cs)"

definition digit_char :: "nat \<Rightarrow> char" where
  "digit_char d = char_of (48 + d)"

text \<open>Decimal printing of a non-negative integer, as a template literal prints it.\<close>

fun string_of_nat :: "nat \<Rightarrow> string" where
  "string_of_nat n =
     (if n < 10 then [digit_char n] else string_of_nat (n div 10) @ [digit_char (n mod 10)])"

declare string_of_nat.simps [simp del]

text \<open>\<open>parts.join(', ')\<close>.\<close>

fun join_comma :: "string list \<Rightarrow> string" where
  "join_comma [] = []"
| "join_comma [x] = x"
| "join_comma (x # y # ys) = x @ '', '' @ join_comma (y # ys)"

text \<open>
  A JavaScript number is a double: \<open>NaN\<close>, an infinity, or a finite value with 53
  significant bits. \<open>to_double\<close> is the double nearest to an exact value, ties to the even
  mantissa (the sign of zero is not kept). \<open>binary_exponent a\<close> is the integer part of the
  binary logarithm of a positive \<open>a\<close>.
\<close>

datatype jsnum = NaN | Num real | PlusInfinity | MinusInfinity

fun bit_length :: "nat \<Rightarrow> nat" where
  "bit_length n = (if n = 0 then 0 else Suc (bit_length (n div 2)))"

declare bit_length.simps [simp del]

definition pow2 :: "int \<Rightarrow> real" where
  "pow2 k = (if 0 \<le> k then 2 ^ nat k else 1 / 2 ^ nat (- k))"

definition binary_exponent :: "real \<Rightarrow> int" where
  "binary_exponent a =
     (if 1 \<le> a then int (bit_length (nat \<lfloor>a\<rfloor>)) - 1
      else - int (bit_length (nat (\<lceil>1 / a\<rceil> - 1))))"

definition round_half_even :: "real \<Rightarrow> int" where
  "round_half_even x =
     (let f = \<lfloor>x\<rfloor>; r = x - of_int f
      in if r < 1 / 2 then f else if 1 / 2 < r then f + 1 else if even f then f else f + 1)"

definition ulp_exponent :: "real \<Rightarrow> int" where
  "ulp_exponent a = max (binary_exponent a) (- 1022) - 52"

definition mantissa :: "real \<Rightarrow> int" where
  "mantissa a = round_half_even (a / pow2 (ulp_exponent a))"

definition to_double :: "real \<Rightarrow> jsnum" where
  "to_double x =
     (if x = 0 then Num 0
      else
        (let y = of_int (mantissa \<bar>x\<bar>) * pow2 (ulp_exponent \<bar>x\<bar>)
         in if 2 ^ 1024 \<le> y then (if x < 0 then MinusInfinity else PlusInfinity)
            else Num (if x < 0 then - y else y)))"

text \<open>
  \<open>toString\<close> of a double that is an integer below \<open>10^21\<close> prints, for a positive one,
  the integer with the fewest significant digits that reads back as the same double (the
  one nearest to it if there are several, the one with the even last digit if two are
  equally near), which 17 digits always allow; a minus sign comes first for a negative
  one. \<open>candidates v k\<close> are the two integers of \<open>k\<close> significant digits next to \<open>v\<close>, the
  preferred one first.
\<close>

fun decimal_length :: "nat \<Rightarrow> nat" where
  "decimal_length n = (if n < 10 then 1 else Suc (decimal_length (n div 10)))"

declare decimal_length.simps [simp del]

definition reads_back :: "int \<Rightarrow> real \<Rightarrow> bool" where
  "reads_back c v = (to_double (of_int c) = Num v)"

definition candidates :: "real \<Rightarrow> nat \<Rightarrow> int list" where
  "candidates v k =
     (let s = 10 ^ (decimal_length (nat \<lfloor>v\<rfloor>) - k);
          lo = \<lfloor>v\<rfloor> div s * s;
          hi = lo + s
      in if v - of_int lo < of_int hi - v \<or> (v - of_int lo = of_int hi - v \<and> even (lo div s))
         then [lo, hi] else [hi, lo])"

definition shortest_digits :: "real \<Rightarrow> int" where
  "shortest_digits v =
     (case List.find (\<lambda>c. reads_back c v) (concat (map (candidates v) [1 ..< 18])) of
        Some c \<Rightarrow> c
      | None \<Rightarrow> \<lfloor>v\<rfloor>)"

definition printed_integer :: "real \<Rightarrow> int" where
  "printed_integer v =
     (if v = 0 then 0 else if v < 0 then - shortest_digits (- v) else shortest_digits v)"

section \<open>Types of the service layer\<close>

type_synonym tags = "string \<rightharpoonup> string"

type_synonym uuid = nat

record Location =
  lat :: real
  lng :: real

record AccessibilityFeatures =
  wheelchairAccessible :: "bool option"
  hasRamp :: "bool option"
  hasElevator :: "bool option"
  hasAccessibleToilet :: "bool option"
  hasAccessibleParking :: "bool option"
  hasAutomaticDoor :: "bool option"

text \<open>
  \<open>Omit<Facility, 'id' | 'createdAt' | 'updatedAt'>\<close>: what the tag normalizer produces
  and \<open>createFacility\<close> consumes. \<open>openingHours\<close> is the raw string of
  \<open>{ raw: tags.opening_hours }\<close>.
\<close>

record Candidate =
  name :: string
  description :: "string option"
  facilityTypeId :: string
  location :: Location
  address :: "string option"
  accessibility :: AccessibilityFeatures
  openingHours :: "string option"
  phone :: "string option"
  website :: "string option"
  verified :: bool
  dataQualityScore :: "real option"
  dataSources :: "string list"
  externalIds :: "(string \<times> string) list"

datatype OSMElement =
    OSMNode nat real real tags
  | OSMWay nat "nat list" tags

section \<open>Tag normalizer: parseOSMElement\<close>

definition facilityType_of_tags :: "tags \<Rightarrow> string" where
  "facilityType_of_tags t =
     (if t ''amenity'' = Some ''toilets'' \<or> t ''toilets:wheelchair'' = Some ''yes'' then ''toilet''
      else if t ''amenity'' = Some ''parking'' \<or> t ''parking:disabled'' = Some ''yes'' then ''parking''
      else if t ''highway'' = Some ''elevator'' \<or> t ''elevator'' = Some ''yes'' then ''elevator''
      else if t ''ramp'' = Some ''yes'' then ''ramp''
      else if truthy (t ''entrance'') then ''entrance''
      else if t ''railway'' = Some ''station'' \<or> t ''public_transport'' = Some ''station''
        then ''station''
      else ''entrance'')"

definition accessibility_of_tags :: "tags \<Rightarrow> AccessibilityFeatures" where
  "accessibility_of_tags t =
     \<lparr> wheelchairAccessible =
         Some (t ''wheelchair'' = Some ''yes'' \<or> t ''wheelchair'' = Some ''limited''),
       hasRamp = Some (t ''ramp'' = Some ''yes''),
       hasElevator = Some (t ''elevator'' = Some ''yes'' \<or> t ''highway'' = Some ''elevator''),
       hasAccessibleToilet = Some (t ''toilets:wheelchair'' = Some ''yes''),
       hasAccessibleParking =
         Some (t ''parking:disabled'' = Some ''yes'' \<or> t ''parking:disabled'' = Some ''designated''),
       hasAutomaticDoor =
         Some (t ''automatic_door'' = Some ''yes'' \<or> t ''door'' = Some ''automatic'') \<rparr>"

definition name_of_tags :: "tags \<Rightarrow> string \<Rightarrow> string" where
  "name_of_tags t ty =
     js_or_str (js_or (t ''name'') (t ''description''))
       (capitalize ty @ '' at '' @ js_or_str (t ''addr:street'') ''location'')"

definition address_of_tags :: "tags \<Rightarrow> string option" where
  "address_of_tags t =
     (let addressParts =
            concat (map (\<lambda>k. case t k of None \<Rightarrow> [] | Some v \<Rightarrow> if v \<noteq> [] then [v] else [])
              [''addr:housenumber'', ''addr:street'', ''addr:city'', ''addr:postcode''])
      in if length addressParts > 0 then Some (join_comma addressParts) else None)"

fun parseOSMElement :: "OSMElement \<Rightarrow> Candidate option" where
  "parseOSMElement (OSMWay i ns t) = None"
| "parseOSMElement (OSMNode i la lo t) =
     Some \<lparr> name = name_of_tags t (facilityType_of_tags t),
            description = js_or (t ''wheelchair:description'') (t ''description''),
            facilityTypeId = facilityType_of_tags t,
            location = \<lparr> lat = la, lng = lo \<rparr>,
            address = address_of_tags t,
            accessibility = accessibility_of_tags t,
            openingHours = (if truthy (t ''opening_hours'') then t ''opening_hours'' else None),
            phone = t ''phone'',
            website = t ''website'',
            verified = False,
            dataQualityScore = Some 0.7,
            dataSources = [''openstreetmap''],
            externalIds = [(''osm'', ''node/'' @ string_of_nat i)] \<rparr>"

section \<open>The facilities table (scripts/init-db.sql)\<close>

text \<open>
  The store is PostgreSQL with PostGIS. A row of \<open>facilities\<close> keeps the columns the
  services read or write; the timestamps \<open>created_at\<close>, \<open>updated_at\<close> and
  \<open>last_verified_at\<close> are left out, \<open>deleted_at\<close> (the tombstone) is kept. A \<open>NULL\<close> is
  \<open>None\<close>. The \<open>location\<close> column holds the point built by \<open>ST_MakePoint(lng, lat)\<close>.
  The primary key comes from \<open>uuid_generate_v4()\<close>: the database state carries the sequence
  of values that function will return and how many it has returned.
\<close>

datatype pg_error =
    StringDataRightTruncation
  | NumericValueOutOfRange
  | UniqueViolation
  | ForeignKeyViolation
  | InvalidTextRepresentation
  | InvalidRowCountInLimitClause
  | InvalidRowCountInResultOffsetClause

record facilities_row =
  id_col :: uuid
  name_col :: string
  description_col :: "string option"
  facility_type_id :: "string option"
  location_col :: Location
  lat_col :: real
  lng_col :: real
  address_col :: "string option"
  wheelchair_accessible :: "bool option"
  has_ramp :: "bool option"
  has_elevator :: "bool option"
  has_accessible_toilet :: "bool option"
  has_accessible_parking :: "bool option"
  has_automatic_door :: "bool option"
  opening_hours :: "string option"
  phone_col :: "string option"
  website_col :: "string option"
  verified_col :: "bool option"
  data_quality_score :: "real option"
  data_sources :: "string list"
  external_ids :: "(string \<times> string) list"
  deleted_at :: "nat option"

record database =
  facilities :: "facilities_row list"
  uuid_source :: "nat \<Rightarrow> uuid"
  uuid_draws :: nat

text \<open>The ids inserted into \<open>facility_types\<close> by the script, in \<open>sort_order\<close>.\<close>

definition facility_type_ids :: "string list" where
  "facility_type_ids = [''toilet'', ''parking'', ''ramp'', ''elevator'', ''entrance'', ''station'']"

text \<open>
  Assignment to \<open>VARCHAR(n)\<close>: a longer value is an error unless the excess is spaces,
  which are cut. Assignment to \<open>DECIMAL(p, s)\<close>: the value is rounded to \<open>s\<close> decimals
  (half away from zero) and must then have at most \<open>p - s\<close> digits before the point.
\<close>

definition to_varchar :: "nat \<Rightarrow> string \<Rightarrow> pg_error + string" where
  "to_varchar n s =
     (if length s \<le> n then Inr s
      else if list_all (\<lambda>c. c = CHR '' '') (drop n s) then Inr (take n s)
      else Inl StringDataRightTruncation)"

definition pg_round :: "real \<Rightarrow> int" where
  "pg_round x = (if 0 \<le> x then \<lfloor>x + 1 / 2\<rfloor> else - \<lfloor>- x + 1 / 2\<rfloor>)"

definition to_decimal :: "nat \<Rightarrow> nat \<Rightarrow> real \<Rightarrow> pg_error + real" where
  "to_decimal p s x =
     (let n = pg_round (x * 10 ^ s)
      in if \<bar>n\<bar> < 10 ^ p then Inr (of_int n / 10 ^ s) else Inl NumericValueOutOfRange)"

definition opt_coerce :: "('a \<Rightarrow> pg_error + 'a) \<Rightarrow> 'a option \<Rightarrow> pg_error + 'a option" where
  "opt_coerce f x =
     (case x of None \<Rightarrow> Inr None
      | Some v \<Rightarrow> (case f v of Inl e \<Rightarrow> Inl e | Inr w \<Rightarrow> Inr (Some w)))"

section \<open>Facility store: createFacility\<close>

text \<open>
  The \<open>INSERT\<close> of \<open>createFacility\<close>. The statement fails when a value does not fit its
  column type, when the generated id is already a primary key, or when
  \<open>facility_type_id\<close> is not a key of \<open>facility_types\<close>. The function itself checks
  nothing: these are the constraints of the table. The cast of the point to
  \<open>geography\<close> does not reject coordinates outside the geodetic range (PostGIS coerces
  them and raises a notice), and no column has a range constraint on \<open>lat\<close> or \<open>lng\<close>.
\<close>

definition insert_error :: "database \<Rightarrow> uuid \<Rightarrow> Candidate \<Rightarrow> pg_error option" where
  "insert_error db u f =
     (if isl (to_varchar 255 (name f)) then Some StringDataRightTruncation
      else if isl (to_varchar 50 (facilityTypeId f)) then Some StringDataRightTruncation
      else if isl (to_decimal 10 8 (lat (location f))) then Some NumericValueOutOfRange
      else if isl (to_decimal 11 8 (lng (location f))) then Some NumericValueOutOfRange
      else if isl (opt_coerce (to_varchar 50) (phone f)) then Some StringDataRightTruncation
      else if isl (opt_coerce (to_decimal 3 2) (dataQualityScore f))
        then Some NumericValueOutOfRange
      else if u \<in> set (map id_col (facilities db)) then Some UniqueViolation
      else if facilityTypeId f \<notin> set facility_type_ids then Some ForeignKeyViolation
      else None)"

definition new_row :: "uuid \<Rightarrow> Candidate \<Rightarrow> facilities_row" where
  "new_row u f =
     \<lparr> id_col = u,
       name_col = projr (to_varchar 255 (name f)),
       description_col = description f,
       facility_type_id = Some (facilityTypeId f),
       location_col = \<lparr> lat = lat (location f), lng = lng (location f) \<rparr>,
       lat_col = projr (to_decimal 10 8 (lat (location f))),
       lng_col = projr (to_decimal 11 8 (lng (location f))),
       address_col = address f,
       wheelchair_accessible = wheelchairAccessible (accessibility f),
       has_ramp = hasRamp (accessibility f),
       has_elevator = hasElevator (accessibility f),
       has_accessible_toilet = hasAccessibleToilet (accessibility f),
       has_accessible_parking = hasAccessibleParking (accessibility f),
       has_automatic_door = hasAutomaticDoor (accessibility f),
       opening_hours = openingHours f,
       phone_col = projr (opt_coerce (to_varchar 50) (phone f)),
       website_col = website f,
       verified_col = Some (verified f),
       data_quality_score = projr (opt_coerce (to_decimal 3 2) (dataQualityScore f)),
       data_sources = dataSources f,
       external_ids = externalIds f,
       deleted_at = None \<rparr>"

text \<open>
  \<open>createFacility\<close> returns the id of the new row, or the error of the failed statement
  (the rejected promise). A failed statement leaves the table as it was.
\<close>

definition createFacility :: "database \<Rightarrow> Candidate \<Rightarrow> (pg_error + uuid) \<times> database" where
  "createFacility db f =
     (let u = uuid_source db (uuid_draws db);
          db' = db \<lparr> uuid_draws := Suc (uuid_draws db) \<rparr>
      in case insert_error db u f of
           Some e \<Rightarrow> (Inl e, db')
         | None \<Rightarrow> (Inr u, db' \<lparr> facilities := facilities db @ [new_row u f] \<rparr>))"

text \<open>
  The generator never repeats itself and never returns an id already in the table.
\<close>

definition uuid_fresh :: "database \<Rightarrow> bool" where
  "uuid_fresh db =
     (inj_on (uuid_source db) {uuid_draws db ..} \<and>
      (\<forall>n \<ge> uuid_draws db. uuid_source db n \<notin> set (map id_col (facilities db))))"

section \<open>Proximity search: searchNearbyFacilities\<close>

record FacilitySearchParams =
  sp_lat :: real
  sp_lng :: real
  sp_radius :: "jsnum option"
  sp_facilityTypes :: "string list option"
  sp_wheelchairAccessible :: "bool option"
  sp_limit :: "jsnum option"
  sp_offset :: "jsnum option"

record FacilityWithDistance =
  facility_id :: uuid
  fw_name :: string
  fw_description :: "string option"
  fw_facilityTypeId :: "string option"
  fw_location :: Location
  fw_address :: "string option"
  fw_accessibility :: AccessibilityFeatures
  fw_openingHours :: "string option"
  fw_phone :: "string option"
  fw_website :: "string option"
  fw_verified :: "bool option"
  fw_dataQualityScore :: "real option"
  fw_dataSources :: "string list"
  fw_externalIds :: "(string \<times> string) list"
  distance :: real

text \<open>
  SQL conditions are three-valued: \<open>None\<close> is \<open>NULL\<close> (unknown), and \<open>WHERE\<close> keeps a
  row only when its condition is true. A comparison with a \<open>NULL\<close> column is unknown.
\<close>

type_synonym sql_bool = "bool option"

definition sql_and :: "sql_bool \<Rightarrow> sql_bool \<Rightarrow> sql_bool" where
  "sql_and a b =
     (if a = Some False \<or> b = Some False then Some False
      else if a = Some True \<and> b = Some True then Some True
      else None)"

definition sql_eq :: "'a option \<Rightarrow> 'a \<Rightarrow> sql_bool" where
  "sql_eq col v = (case col of None \<Rightarrow> None | Some c \<Rightarrow> Some (c = v))"

definition sql_eq_any :: "'a option \<Rightarrow> 'a list \<Rightarrow> sql_bool" where
  "sql_eq_any col vs = (case col of None \<Rightarrow> None | Some c \<Rightarrow> Some (c \<in> set vs))"

text \<open>
  The distance of two geography points, \<open>ST_Distance\<close>, is computed by PostGIS and is a
  parameter \<open>d\<close> of the model. \<open>ST_DWithin(a, b, r)\<close> holds when that distance is at most
  \<open>r\<close>; no distance is within \<open>NaN\<close> or minus infinity, every distance is within
  infinity.
\<close>

type_synonym st_distance = "Location \<Rightarrow> Location \<Rightarrow> real"

definition ST_DWithin :: "st_distance \<Rightarrow> Location \<Rightarrow> Location \<Rightarrow> jsnum \<Rightarrow> sql_bool" where
  "ST_DWithin d a b r =
     (case r of
        NaN \<Rightarrow> Some False
      | Num x \<Rightarrow> Some (d a b \<le> x)
      | PlusInfinity \<Rightarrow> Some True
      | MinusInfinity \<Rightarrow> Some False)"

text \<open>The list \<open>conditions\<close> built by the function, joined with \<open>AND\<close>.\<close>

definition conditions :: "FacilitySearchParams \<Rightarrow> (facilities_row \<Rightarrow> sql_bool) list" where
  "conditions p =
     [\<lambda>r. Some (deleted_at r = None)]
     @ (case sp_facilityTypes p of
          None \<Rightarrow> []
        | Some ts \<Rightarrow> if length ts > 0 then [\<lambda>r. sql_eq_any (facility_type_id r) ts] else [])
     @ (case sp_wheelchairAccessible p of
          None \<Rightarrow> []
        | Some b \<Rightarrow> [\<lambda>r. sql_eq (wheelchair_accessible r) b])"

definition search_center :: "FacilitySearchParams \<Rightarrow> Location" where
  "search_center p = \<lparr> lat = sp_lat p, lng = sp_lng p \<rparr>"

definition search_radius :: "FacilitySearchParams \<Rightarrow> jsnum" where
  "search_radius p = (case sp_radius p of None \<Rightarrow> Num 1000 | Some r \<Rightarrow> r)"

definition where_clause :: "st_distance \<Rightarrow> FacilitySearchParams \<Rightarrow> facilities_row \<Rightarrow> sql_bool" where
  "where_clause d p r =
     foldl sql_and (ST_DWithin d (location_col r) (search_center p) (search_radius p))
       (map (\<lambda>c. c r) (conditions p))"

text \<open>
  \<open>LIMIT\<close> and \<open>OFFSET\<close> take a \<open>bigint\<close>. The driver sends a number as the text
  \<open>toString\<close> gives: an integer below \<open>10^21\<close> in absolute value is sent as its digits,
  anything else (a fraction, exponent notation, \<open>NaN\<close>, \<open>Infinity\<close>) is not the text of an
  integer. The conversion fails on such a text and on digits that spell an integer
  outside the range of \<open>bigint\<close>.
\<close>

definition to_bigint :: "jsnum \<Rightarrow> pg_error + int" where
  "to_bigint x =
     (case x of
        Num v \<Rightarrow>
          if v = of_int \<lfloor>v\<rfloor> \<and> \<bar>v\<bar> < 10 ^ 21 then
            (let t = printed_integer v
             in if t < - (2 ^ 63) \<or> 2 ^ 63 \<le> t then Inl NumericValueOutOfRange else Inr t)
          else Inl InvalidTextRepresentation
      | _ \<Rightarrow> Inl InvalidTextRepresentation)"

definition row_count :: "pg_error \<Rightarrow> jsnum \<Rightarrow> pg_error + nat" where
  "row_count neg x =
     (case to_bigint x of
        Inl e \<Rightarrow> Inl e
      | Inr n \<Rightarrow> if n < 0 then Inl neg else Inr (nat n))"

definition limit_parameter :: "FacilitySearchParams \<Rightarrow> jsnum" where
  "limit_parameter p = (case sp_limit p of None \<Rightarrow> Num 20 | Some l \<Rightarrow> l)"

definition offset_parameter :: "FacilitySearchParams \<Rightarrow> jsnum" where
  "offset_parameter p = (case sp_offset p of None \<Rightarrow> Num 0 | Some l \<Rightarrow> l)"

definition search_limit :: "FacilitySearchParams \<Rightarrow> pg_error + nat" where
  "search_limit p = row_count InvalidRowCountInLimitClause (limit_parameter p)"

definition search_offset :: "FacilitySearchParams \<Rightarrow> pg_error + nat" where
  "search_offset p = row_count InvalidRowCountInResultOffsetClause (offset_parameter p)"

text \<open>
  The rows of the table that satisfy \<open>WHERE\<close>, each with its \<open>distance\<close> column, and
  \<open>ORDER BY distance ASC\<close>. The statement orders by nothing else: rows at the same
  distance come out in whatever order the scan delivers them, here the order of the table
  list (the sort is stable), which is any order at all.
\<close>

definition matching_rows ::
  "st_distance \<Rightarrow> FacilitySearchParams \<Rightarrow> facilities_row list \<Rightarrow> (facilities_row \<times> real) list"
where
  "matching_rows d p tbl =
     map (\<lambda>r. (r, d (location_col r) (search_center p)))
       (filter (\<lambda>r. where_clause d p r = Some True) tbl)"

definition order_by_distance :: "(facilities_row \<times> real) list \<Rightarrow> (facilities_row \<times> real) list" where
  "order_by_distance rows = sort_key snd rows"

text \<open>The object built from a result row by \<open>results.map\<close>.\<close>

definition row_to_facility :: "facilities_row \<times> real \<Rightarrow> FacilityWithDistance" where
  "row_to_facility rd =
     (case rd of (r, dst) \<Rightarrow>
       \<lparr> facility_id = id_col r,
         fw_name = name_col r,
         fw_description = description_col r,
         fw_facilityTypeId = facility_type_id r,
         fw_location = \<lparr> lat = lat_col r, lng = lng_col r \<rparr>,
         fw_address = address_col r,
         fw_accessibility =
           \<lparr> wheelchairAccessible = wheelchair_accessible r,
             hasRamp = has_ramp r,
             hasElevator = has_elevator r,
             hasAccessibleToilet = has_accessible_toilet r,
             hasAccessibleParking = has_accessible_parking r,
             hasAutomaticDoor = has_automatic_door r \<rparr>,
         fw_openingHours = opening_hours r,
         fw_phone = phone_col r,
         fw_website = website_col r,
         fw_verified = verified_col r,
         fw_dataQualityScore = data_quality_score r,
         fw_dataSources = data_sources r,
         fw_externalIds = external_ids r,
         distance = dst \<rparr>)"

text \<open>
  The statement. Both row counts are converted when the statement is bound, the limit
  (the earlier parameter) first; when it runs, a negative \<open>OFFSET\<close> is refused before a
  negative \<open>LIMIT\<close>.
\<close>

definition searchNearbyFacilities ::
  "st_distance \<Rightarrow> database \<Rightarrow> FacilitySearchParams \<Rightarrow> pg_error + FacilityWithDistance list"
where
  "searchNearbyFacilities d db p =
     (case to_bigint (limit_parameter p) of
        Inl e \<Rightarrow> Inl e
      | Inr n \<Rightarrow>
         (case search_offset p of
            Inl e \<Rightarrow> Inl e
          | Inr off \<Rightarrow>
             (case search_limit p of
                Inl e \<Rightarrow> Inl e
              | Inr l \<Rightarrow>
                  Inr (map row_to_facility
                        (take l (drop off
                          (order_by_distance (matching_rows d p (facilities db)))))))))"

text \<open>
  Modelled from the spec: the distance function of the store is PostGIS's, which is not
  code of this repository; the spec calls it the great-circle distance. This is the
  haversine distance on a sphere of the Earth's mean radius, in metres, used where a
  concrete distance is needed.
\<close>

definition deg2rad :: "real \<Rightarrow> real" where
  "deg2rad x = x * pi / 180"

definition greatCircleDistance :: st_distance where
  "greatCircleDistance a b =
     2 * 6371000 *
       arcsin (sqrt ((sin (deg2rad (lat b - lat a) / 2))\<^sup>2
                     + cos (deg2rad (lat a)) * cos (deg2rad (lat b))
                       * (sin (deg2rad (lng b - lng a) / 2))\<^sup>2))"

text \<open>\<open>getFacilityById\<close>: the row with that id that is not tombstoned, if any.\<close>

definition getFacilityById :: "database \<Rightarrow> uuid \<Rightarrow> facilities_row option" where
  "getFacilityById db i = find (\<lambda>r. id_col r = i \<and> deleted_at r = None) (facilities db)"

section \<open>The search route: GET /facilities/nearby\<close>

text \<open>
  \<open>parseInt\<close> and \<open>parseFloat\<close> on ASCII input: leading white space is skipped, a sign is
  read, then the longest prefix that is a number; with no such prefix the result is
  \<open>NaN\<close>. \<open>parseInt\<close> reads a \<open>0x\<close> prefix as hexadecimal. The result is the double
  nearest to the value read.
\<close>

definition is_space :: "char \<Rightarrow> bool" where
  "is_space c = (of_char c \<in> {9, 10, 11, 12, 13, 32 :: nat})"

definition radix_digit :: "nat \<Rightarrow> char \<Rightarrow> nat option" where
  "radix_digit r c =
     (let n = (of_char c :: nat);
          v = (if 48 \<le> n \<and> n \<le> 57 then Some (n - 48)
               else if 97 \<le> n \<and> n \<le> 122 then Some (n - 87)
               else if 65 \<le> n \<and> n \<le> 90 then Some (n - 55)
               else None)
      in case v of None \<Rightarrow> None | Some d \<Rightarrow> if d < r then Some d else None)"

definition is_digit :: "char \<Rightarrow> bool" where
  "is_digit c = (radix_digit 10 c \<noteq> None)"

definition digits_value :: "nat \<Rightarrow> string \<Rightarrow> nat" where
  "digits_value r ds =
     foldl (\<lambda>a c. r * a + (case radix_digit r c of None \<Rightarrow> 0 | Some d \<Rightarrow> d)) 0 ds"

definition strip_sign :: "string \<Rightarrow> bool \<times> string" where
  "strip_sign s =
     (case s of
        [] \<Rightarrow> (False, [])
      | c # r \<Rightarrow> if c = CHR ''-'' then (True, r) else if c = CHR ''+'' then (False, r) else (False, s))"

definition parseInt :: "string \<Rightarrow> jsnum" where
  "parseInt s =
     (case strip_sign (dropWhile is_space s) of (neg, u) \<Rightarrow>
        (let hex = (take 2 u = ''0x'' \<or> take 2 u = ''0X'');
             r = (if hex then 16 else 10);
             ds = takeWhile (\<lambda>c. radix_digit r c \<noteq> None) (if hex then drop 2 u else u)
         in if ds = [] then NaN
            else to_double (of_int ((if neg then - 1 else 1) * int (digits_value r ds)))))"

definition exponent_part :: "string \<Rightarrow> int" where
  "exponent_part s =
     (case s of
        [] \<Rightarrow> 0
      | c # r \<Rightarrow>
          if c = CHR ''e'' \<or> c = CHR ''E'' then
            (case strip_sign r of (neg, ds) \<Rightarrow>
               (let es = takeWhile is_digit ds
                in if es = [] then 0 else (if neg then - 1 else 1) * int (digits_value 10 es)))
          else 0)"

definition parseFloat :: "string \<Rightarrow> jsnum" where
  "parseFloat s =
     (case strip_sign (dropWhile is_space s) of (neg, u) \<Rightarrow>
        if take 8 u = ''Infinity'' then (if neg then MinusInfinity else PlusInfinity)
        else
          (let ip = takeWhile is_digit u;
               r1 = dropWhile is_digit u;
               fp = (case r1 of [] \<Rightarrow> []
                     | c # r \<Rightarrow> if c = CHR ''.'' then takeWhile is_digit r else []);
               r2 = (case r1 of [] \<Rightarrow> []
                     | c # r \<Rightarrow> if c = CHR ''.'' then dropWhile is_digit r else r1);
               e = exponent_part r2;
               m = real (digits_value 10 (ip @ fp)) / 10 ^ length fp
           in if ip = [] \<and> fp = [] then NaN
              else to_double ((if neg then - 1 else 1)
                              * (if 0 \<le> e then m * 10 ^ nat e else m / 10 ^ nat (- e)))))"

text \<open>\<open>types.split(',')\<close>.\<close>

fun split_commas :: "string \<Rightarrow> string \<Rightarrow> string list" where
  "split_commas acc [] = [rev acc]"
| "split_commas acc (c # cs) =
     (if c = CHR '','' then rev acc # split_commas [] cs else split_commas (c # acc) cs)"

record SearchQuery =
  q_lat :: "string option"
  q_lng :: "string option"
  q_radius :: "string option"
  q_types :: "string option"
  q_wheelchairAccessible :: "string option"
  q_limit :: "string option"
  q_offset :: "string option"

text \<open>
  The reply: status 400 with its \<open>error\<close> text, status 500 with the error of the failed
  search, or the success body with the facilities, their count, and the location and
  radius echoed back.
\<close>

datatype reply =
    Status400 string
  | Status500 pg_error
  | Status200 "FacilityWithDistance list" nat Location jsnum

definition parse_if_given :: "string option \<Rightarrow> jsnum option" where
  "parse_if_given a = (if truthy a then map_option parseInt a else None)"

definition searchParams :: "real \<Rightarrow> real \<Rightarrow> SearchQuery \<Rightarrow> FacilitySearchParams" where
  "searchParams latNum lngNum q =
     \<lparr> sp_lat = latNum,
       sp_lng = lngNum,
       sp_radius = parse_if_given (q_radius q),
       sp_facilityTypes = (if truthy (q_types q) then map_option (split_commas []) (q_types q)
                           else None),
       sp_wheelchairAccessible =
         (if q_wheelchairAccessible q = Some ''true'' then Some True
          else if q_wheelchairAccessible q = Some ''false'' then Some False
          else None),
       sp_limit = parse_if_given (q_limit q),
       sp_offset = parse_if_given (q_offset q) \<rparr>"

text \<open>\<open>searchParams.radius || 1000\<close>: \<open>NaN\<close> and \<open>0\<close> are falsy.\<close>

definition radius_or_default :: "jsnum option \<Rightarrow> jsnum" where
  "radius_or_default r =
     (case r of
        None \<Rightarrow> Num 1000
      | Some NaN \<Rightarrow> Num 1000
      | Some (Num x) \<Rightarrow> if x = 0 then Num 1000 else Num x
      | Some PlusInfinity \<Rightarrow> PlusInfinity
      | Some MinusInfinity \<Rightarrow> MinusInfinity)"

definition run_search :: "st_distance \<Rightarrow> database \<Rightarrow> real \<Rightarrow> real \<Rightarrow> SearchQuery \<Rightarrow> reply" where
  "run_search d db latNum lngNum q =
     (case searchNearbyFacilities d db (searchParams latNum lngNum q) of
        Inl e \<Rightarrow> Status500 e
      | Inr fs \<Rightarrow>
          Status200 fs (length fs) \<lparr> lat = latNum, lng = lngNum \<rparr>
            (radius_or_default (sp_radius (searchParams latNum lngNum q))))"

definition check_coordinates :: "string \<Rightarrow> string \<Rightarrow> string + real \<times> real" where
  "check_coordinates la lo =
     (case (parseFloat la, parseFloat lo) of
        (NaN, _) \<Rightarrow> Inl ''Invalid parameters''
      | (_, NaN) \<Rightarrow> Inl ''Invalid parameters''
      | (PlusInfinity, _) \<Rightarrow> Inl ''Invalid latitude''
      | (MinusInfinity, _) \<Rightarrow> Inl ''Invalid latitude''
      | (Num latNum, lngF) \<Rightarrow>
          if latNum < - 90 \<or> latNum > 90 then Inl ''Invalid latitude''
          else
            (case lngF of
               Num lngNum \<Rightarrow>
                 if lngNum < - 180 \<or> lngNum > 180 then Inl ''Invalid longitude''
                 else Inr (latNum, lngNum)
             | _ \<Rightarrow> Inl ''Invalid longitude''))"

definition facilities_nearby :: "st_distance \<Rightarrow> database \<Rightarrow> SearchQuery \<Rightarrow> reply" where
  "facilities_nearby d db q =
     (case (q_lat q, q_lng q) of
        (Some la, Some lo) \<Rightarrow>
          if la = [] \<or> lo = [] then Status400 ''Missing required parameters''
          else
            (case check_coordinates la lo of
               Inl e \<Rightarrow> Status400 e
             | Inr (latNum, lngNum) \<Rightarrow> run_search d db latNum lngNum q)
      | _ \<Rightarrow> Status400 ''Missing required parameters'')"

section \<open>Source ingestion client\<close>

text \<open>
  The client's state: the module variable \<open>lastRequestTime\<close>, the clock read by
  \<open>Date.now()\<close> (milliseconds), the times at which a request was posted so far, and what
  the provider will answer to the requests still to come, each answer with the time it
  takes. An answer is the list of elements of the response, or the message of the error
  \<open>axios.post\<close> throws (a transport failure, a timeout, an error status).
\<close>

definition rateLimitMs :: int where
  "rateLimitMs = 500"

type_synonym answer = "string + OSMElement list"

record client =
  lastRequestTime :: int
  clock :: int
  sent :: "int list"
  overpass :: "(nat \<times> answer) list"

text \<open>
  \<open>rateLimitedRequest\<close> runs in two parts, separated by the \<open>await\<close> of the timer.
  \<open>enter_gate\<close> is the part before it: the delay handed to \<open>setTimeout\<close>, or \<open>None\<close>
  when the call goes on at once. \<open>pass_gate\<close> is the part after it, run at the time the
  clock shows: it records \<open>lastRequestTime\<close>, posts the request and takes the answer.
\<close>

definition enter_gate :: "client \<Rightarrow> int option" where
  "enter_gate c =
     (let timeSinceLastRequest = clock c - lastRequestTime c
      in if timeSinceLastRequest < rateLimitMs then Some (rateLimitMs - timeSinceLastRequest)
         else None)"

definition pass_gate :: "client \<Rightarrow> answer \<times> client" where
  "pass_gate c =
     (let c1 = c \<lparr> lastRequestTime := clock c, sent := sent c @ [clock c] \<rparr>
      in case overpass c1 of
           [] \<Rightarrow> (Inl ''timeout of 30000ms exceeded'', c1 \<lparr> clock := clock c1 + 30000 \<rparr>)
         | (latency, a) # rest \<Rightarrow>
             (a, c1 \<lparr> clock := clock c1 + int latency, overpass := rest \<rparr>))"

text \<open>One call on its own: the timer fires when it is due.\<close>

definition rateLimitedRequest :: "client \<Rightarrow> answer \<times> client" where
  "rateLimitedRequest c =
     pass_gate (case enter_gate c of None \<Rightarrow> c | Some d \<Rightarrow> c \<lparr> clock := clock c + d \<rparr>)"

definition fetchOSMFacilities :: "client \<Rightarrow> answer \<times> client" where
  "fetchOSMFacilities c =
     (case rateLimitedRequest c of
        (Inl message, c') \<Rightarrow> (Inl (''Failed to fetch OSM data: '' @ message), c')
      | (Inr elements, c') \<Rightarrow> (Inr elements, c'))"

text \<open>
  Calls that overlap. The server handles requests concurrently, so a second call can
  enter the gate while the first waits for its timer. A schedule lists what happens, in
  order of time: a call enters at a time, or the oldest pending timer fires at a time no
  earlier than it is due. The run of a schedule is \<open>None\<close> when the schedule is not
  possible (time runs backwards, a timer fires early, or none is pending).
\<close>

datatype gate_event = Call int | Wake int

fun run_calls :: "gate_event list \<Rightarrow> client \<Rightarrow> int list \<Rightarrow> (client \<times> int list) option" where
  "run_calls [] c due = Some (c, due)"
| "run_calls (Call t # evs) c due =
     (if t < clock c then None
      else (case enter_gate (c \<lparr> clock := t \<rparr>) of
              None \<Rightarrow> run_calls evs ((snd (pass_gate (c \<lparr> clock := t \<rparr>))) \<lparr> clock := t \<rparr>) due
            | Some d \<Rightarrow> run_calls evs (c \<lparr> clock := t \<rparr>) (due @ [t + d])))"
| "run_calls (Wake t # evs) c due =
     (case due of
        [] \<Rightarrow> None
      | w # ws \<Rightarrow>
          if t < clock c \<or> t < w then None
          else run_calls evs ((snd (pass_gate (c \<lparr> clock := t \<rparr>))) \<lparr> clock := t \<rparr>) ws)"

section \<open>Import orchestrator\<close>

text \<open>
  The loop of \<open>importOSMFacilities\<close> and of \<open>syncOSMDataForArea\<close>: every element the
  normalizer accepts is handed to \<open>createFacility\<close>; a rejected promise is caught and the
  loop goes on. The count is \<open>importedCount\<close>. No lookup by external id precedes the
  insert.
\<close>

fun import_elements :: "database \<Rightarrow> OSMElement list \<Rightarrow> nat \<Rightarrow> database \<times> nat" where
  "import_elements db [] importedCount = (db, importedCount)"
| "import_elements db (element # rest) importedCount =
     (case parseOSMElement element of
        None \<Rightarrow> import_elements db rest importedCount
      | Some facility \<Rightarrow>
          (case createFacility db facility of
             (Inr facilityId, db') \<Rightarrow> import_elements db' rest (Suc importedCount)
           | (Inl error, db') \<Rightarrow> import_elements db' rest importedCount))"

definition importOSMFacilities :: "client \<Rightarrow> database \<Rightarrow> (string + nat) \<times> client \<times> database" where
  "importOSMFacilities c db =
     (case fetchOSMFacilities c of
        (Inl message, c') \<Rightarrow> (Inl message, c', db)
      | (Inr elements, c') \<Rightarrow>
          (case import_elements db elements 0 of
             (db', importedCount) \<Rightarrow> (Inr importedCount, c', db')))"

text \<open>The result of \<open>syncOSMDataForArea\<close> is \<open>{ total, imported }\<close>.\<close>

definition syncOSMDataForArea ::
  "client \<Rightarrow> database \<Rightarrow> (string + nat \<times> nat) \<times> client \<times> database"
where
  "syncOSMDataForArea c db =
     (case fetchOSMFacilities c of
        (Inl message, c') \<Rightarrow> (Inl message, c', db)
      | (Inr elements, c') \<Rightarrow>
          (case import_elements db elements 0 of
             (db', imported) \<Rightarrow> (Inr (length elements, imported), c', db')))"

section \<open>What the claims say, as predicates\<close>

text \<open>
  A row satisfies a query when it lies within the radius of the center, is not
  tombstoned, and passes the type filter and the wheelchair filter where they are given.
\<close>

definition within_radius :: "st_distance \<Rightarrow> FacilitySearchParams \<Rightarrow> facilities_row \<Rightarrow> bool" where
  "within_radius d p r =
     (case search_radius p of
        NaN \<Rightarrow> False
      | Num x \<Rightarrow> d (location_col r) (search_center p) \<le> x
      | PlusInfinity \<Rightarrow> True
      | MinusInfinity \<Rightarrow> False)"

definition type_filter_ok :: "FacilitySearchParams \<Rightarrow> facilities_row \<Rightarrow> bool" where
  "type_filter_ok p r =
     (case sp_facilityTypes p of
        None \<Rightarrow> True
      | Some ts \<Rightarrow> ts = [] \<or> (case facility_type_id r of None \<Rightarrow> False | Some t \<Rightarrow> t \<in> set ts))"

definition wheelchair_filter_ok :: "FacilitySearchParams \<Rightarrow> facilities_row \<Rightarrow> bool" where
  "wheelchair_filter_ok p r =
     (case sp_wheelchairAccessible p of
        None \<Rightarrow> True
      | Some b \<Rightarrow> wheelchair_accessible r = Some b)"

definition satisfies_query :: "st_distance \<Rightarrow> FacilitySearchParams \<Rightarrow> facilities_row \<Rightarrow> bool" where
  "satisfies_query d p r =
     (within_radius d p r \<and> deleted_at r = None \<and> type_filter_ok p r \<and> wheelchair_filter_ok p r)"

text \<open>The page asked for starts at the first row and has room for \<open>n\<close> rows.\<close>

definition page_covers :: "FacilitySearchParams \<Rightarrow> nat \<Rightarrow> bool" where
  "page_covers p n =
     (search_offset p = Inr 0 \<and> (case search_limit p of Inl e \<Rightarrow> False | Inr l \<Rightarrow> n \<le> l))"


section \<open>Sample data for concrete runs\<close>

text \<open>A node tagged \<open>toilets:wheelchair=yes\<close>, and what the normalizer makes of it.\<close>

definition toilet_node :: "nat \<Rightarrow> real \<Rightarrow> real \<Rightarrow> OSMElement" where
  "toilet_node i la lo = OSMNode i la lo [''toilets:wheelchair'' \<mapsto> ''yes'']"

definition toilet_candidate :: "nat \<Rightarrow> Location \<Rightarrow> Candidate" where
  "toilet_candidate i loc =
     \<lparr> name = ''Toilet at location'', description = None, facilityTypeId = ''toilet'',
       location = loc, address = None,
       accessibility =
         \<lparr> wheelchairAccessible = Some False, hasRamp = Some False, hasElevator = Some False,
           hasAccessibleToilet = Some True, hasAccessibleParking = Some False,
           hasAutomaticDoor = Some False \<rparr>,
       openingHours = None, phone = None, website = None, verified = False,
       dataQualityScore = Some 0.7, dataSources = [''openstreetmap''],
       externalIds = [(''osm'', ''node/'' @ string_of_nat i)] \<rparr>"

definition empty_db :: "(nat \<Rightarrow> uuid) \<Rightarrow> database" where
  "empty_db src = \<lparr> facilities = [], uuid_source = src, uuid_draws = 0 \<rparr>"

text \<open>
  A small store for concrete runs: three accessible toilets on one meridian, at the
  search center, 1/256 of a degree north of it (434 m) and 1/8 of a degree north of it
  (13.9 km). The coordinates are doubles.
\<close>

definition at_center :: Location where
  "at_center = \<lparr> lat = 52.5, lng = 13.375 \<rparr>"

definition nearby :: Location where
  "nearby = \<lparr> lat = 52.50390625, lng = 13.375 \<rparr>"

definition far_away :: Location where
  "far_away = \<lparr> lat = 52.625, lng = 13.375 \<rparr>"

definition berlin_db :: "(nat \<Rightarrow> uuid) \<Rightarrow> database" where
  "berlin_db src =
     snd (createFacility
       (snd (createFacility
         (snd (createFacility (empty_db src) (toilet_candidate 101 at_center)))
         (toilet_candidate 102 nearby)))
       (toilet_candidate 103 far_away))"

definition berlin_query :: FacilitySearchParams where
  "berlin_query =
     \<lparr> sp_lat = lat at_center, sp_lng = lng at_center, sp_radius = Some (Num 1000),
       sp_facilityTypes = None, sp_wheelchairAccessible = None,
       sp_limit = None, sp_offset = None \<rparr>"

definition berlin_first_only :: FacilitySearchParams where
  "berlin_first_only = berlin_query \<lparr> sp_limit := Some (Num 1) \<rparr>"

definition berlin_not_accessible :: FacilitySearchParams where
  "berlin_not_accessible = berlin_query \<lparr> sp_wheelchairAccessible := Some False \<rparr>"

text \<open>Two facilities at the same place.\<close>

definition twin_db :: "(nat \<Rightarrow> uuid) \<Rightarrow> database" where
  "twin_db src =
     snd (createFacility
       (snd (createFacility (empty_db src) (toilet_candidate 101 at_center)))
       (toilet_candidate 104 at_center))"

text \<open>The same store after the facility with id \<open>i\<close> has been soft-deleted at time \<open>t\<close>.\<close>

definition tombstoned :: "uuid \<Rightarrow> nat \<Rightarrow> database \<Rightarrow> database" where
  "tombstoned i t db =
     db \<lparr> facilities :=
            map (\<lambda>r. if id_col r = i then r \<lparr> deleted_at := Some t \<rparr> else r) (facilities db) \<rparr>"

section \<open>Outcomes of an import, as predicates\<close>

text \<open>
  The table accepts a candidate: every value fits its column and the type is in the
  catalog. An element is skipped when the normalizer returns \<open>null\<close>; its create fails
  when the normalizer accepts it and the table does not.
\<close>

definition schema_accepts :: "Candidate \<Rightarrow> bool" where
  "schema_accepts f =
     (\<not> isl (to_varchar 255 (name f)) \<and> \<not> isl (to_varchar 50 (facilityTypeId f))
      \<and> \<not> isl (to_decimal 10 8 (lat (location f))) \<and> \<not> isl (to_decimal 11 8 (lng (location f)))
      \<and> \<not> isl (opt_coerce (to_varchar 50) (phone f))
      \<and> \<not> isl (opt_coerce (to_decimal 3 2) (dataQualityScore f))
      \<and> facilityTypeId f \<in> set facility_type_ids)"

definition skipped :: "OSMElement \<Rightarrow> bool" where
  "skipped e = (parseOSMElement e = None)"

definition create_fails :: "OSMElement \<Rightarrow> bool" where
  "create_fails e = (case parseOSMElement e of None \<Rightarrow> False | Some f \<Rightarrow> \<not> schema_accepts f)"

definition create_succeeds :: "OSMElement \<Rightarrow> bool" where
  "create_succeeds e = (case parseOSMElement e of None \<Rightarrow> False | Some f \<Rightarrow> schema_accepts f)"

text \<open>The rows of a table that carry a given external id and are not tombstoned.\<close>

definition live_with_external_id :: "database \<Rightarrow> string \<times> string \<Rightarrow> facilities_row list" where
  "live_with_external_id db k =
     filter (\<lambda>r. k \<in> set (external_ids r) \<and> deleted_at r = None) (facilities db)"

text \<open>A client that has sent nothing yet, at a given time, with the answers to come.\<close>

definition new_client :: "int \<Rightarrow> (nat \<times> answer) list \<Rightarrow> client" where
  "new_client now answers =
     \<lparr> lastRequestTime = 0, clock = now, sent = [], overpass = answers \<rparr>"

text \<open>
  The rows an import run appends when every generated id is new: one per element whose
  candidate the table accepts, with the ids drawn in order (a failed insert draws one
  too).
\<close>

fun imported_rows :: "(nat \<Rightarrow> uuid) \<Rightarrow> nat \<Rightarrow> OSMElement list \<Rightarrow> facilities_row list" where
  "imported_rows src k [] = []"
| "imported_rows src k (e # es) =
     (case parseOSMElement e of
        None \<Rightarrow> imported_rows src k es
      | Some f \<Rightarrow>
          (if schema_accepts f then [new_row (src k) f] else []) @ imported_rows src (Suc k) es)"

text \<open>Two import runs in a row: the results of both and the store after the second.\<close>

definition import_twice :: "client \<Rightarrow> database \<Rightarrow> (string + nat) \<times> (string + nat) \<times> database" where
  "import_twice c db =
     (case importOSMFacilities c db of
        (r1, c1, db1) \<Rightarrow>
          (case importOSMFacilities c1 db1 of (r2, c2, db2) \<Rightarrow> (r1, r2, db2)))"

text \<open>
  Batches for concrete runs: four valid nodes, and the same four with a node of latitude
  999 among them.
\<close>

definition valid_batch :: "OSMElement list" where
  "valid_batch =
     [toilet_node 101 52.52 13.405, toilet_node 102 52.521 13.405,
      toilet_node 104 52.62 13.405, toilet_node 105 52.52 13.406]"

definition batch_with_bad_latitude :: "OSMElement list" where
  "batch_with_bad_latitude =
     [toilet_node 101 52.52 13.405, toilet_node 102 52.521 13.405, toilet_node 103 999 13.405,
      toilet_node 104 52.62 13.405, toilet_node 105 52.52 13.406]"

text \<open>The route rejected the request: it answered with status 400.\<close>

definition rejected :: "reply \<Rightarrow> bool" where
  "rejected r = (case r of Status400 e \<Rightarrow> True | _ \<Rightarrow> False)"

text \<open>
  What a request asks for. Its coordinates: both are given, both are numbers, the
  latitude lies within [-90, 90] and the longitude within [-180, 180]. A number
  parameter: \<open>parseInt\<close> of its text when it is given and not empty, the default
  otherwise.
\<close>

definition request_coordinates :: "SearchQuery \<Rightarrow> (real \<times> real) option" where
  "request_coordinates q =
     (case (q_lat q, q_lng q) of
        (Some la, Some lo) \<Rightarrow>
          (case (parseFloat la, parseFloat lo) of
             (Num x, Num y) \<Rightarrow>
               if la \<noteq> [] \<and> lo \<noteq> [] \<and> - 90 \<le> x \<and> x \<le> 90 \<and> - 180 \<le> y \<and> y \<le> 180
               then Some (x, y) else None
           | _ \<Rightarrow> None)
      | _ \<Rightarrow> None)"




text \<open>
  Requests for concrete runs, all at the center of the sample store: with a radius of
  20000 km; with \<open>limit=1&offset=1\<close>; with \<open>limit=-1\<close>; with \<open>limit=-1&offset=-1\<close>; with
  \<open>offset=abc\<close>; with the largest \<open>bigint\<close> as limit; and one at latitude 91 and one
  at latitude 90.00000000000000001.
\<close>

definition request_at_center :: SearchQuery where
  "request_at_center =
     \<lparr> q_lat = Some ''52.5'', q_lng = Some ''13.375'', q_radius = None, q_types = None,
       q_wheelchairAccessible = None, q_limit = None, q_offset = None \<rparr>"

definition request_whole_earth :: SearchQuery where
  "request_whole_earth = request_at_center \<lparr> q_radius := Some ''20000000'' \<rparr>"

definition request_second_page :: SearchQuery where
  "request_second_page = request_at_center \<lparr> q_limit := Some ''1'', q_offset := Some ''1'' \<rparr>"

definition request_negative_limit :: SearchQuery where
  "request_negative_limit = request_at_center \<lparr> q_limit := Some ''-1'' \<rparr>"

definition request_negative_both :: SearchQuery where
  "request_negative_both = request_at_center \<lparr> q_limit := Some ''-1'', q_offset := Some ''-1'' \<rparr>"

definition request_bad_offset :: SearchQuery where
  "request_bad_offset = request_at_center \<lparr> q_offset := Some ''abc'' \<rparr>"

definition request_largest_limit :: SearchQuery where
  "request_largest_limit = request_at_center \<lparr> q_limit := Some ''9223372036854775807'' \<rparr>"



text \<open>
  The sample store with a fourth facility, at the center, whose wheelchair accessibility
  is not known (the column is \<open>NULL\<close>), and a request with the filter
  \<open>wheelchairAccessible=false\<close>.
\<close>

definition unknown_wheelchair_candidate :: Candidate where
  "unknown_wheelchair_candidate =
     (toilet_candidate 106 at_center)
       \<lparr> accessibility :=
           (accessibility (toilet_candidate 106 at_center)) \<lparr> wheelchairAccessible := None \<rparr> \<rparr>"

definition mixed_db :: "(nat \<Rightarrow> uuid) \<Rightarrow> database" where
  "mixed_db src = snd (createFacility (berlin_db src) unknown_wheelchair_candidate)"

definition request_not_accessible :: SearchQuery where
  "request_not_accessible =
     request_at_center \<lparr> q_radius := Some ''1000'', q_wheelchairAccessible := Some ''false'' \<rparr>"

section \<open>Properties of the tag normalizer\<close>

text \<open>
  C1, as stated: a node without a \<open>wheelchair\<close> tag yields
  \<open>wheelchairAccessible\<close> unset. It does not: the normalizer computes every flag as a
  comparison, so the flag of such a node is \<open>false\<close>.
\<close>

theorem parseOSMElement_untagged_flag_is_false:
  "map_option (wheelchairAccessible \<circ> accessibility)
     (parseOSMElement (OSMNode 1 52.52 13.405 Map.empty)) = Some (Some False)"
  by (simp add: accessibility_of_tags_def)

text \<open>
  C1, amended: for every node, each accessibility flag is set, to \<open>true\<close> exactly when the
  tag has one of its affirmative values and to \<open>false\<close> in every other case, an absent tag
  included (so a node with no \<open>wheelchair\<close> tag has \<open>wheelchairAccessible = false\<close>); a
  node tagged \<open>toilets:wheelchair=yes\<close> is classified \<open>toilet\<close> with
  \<open>hasAccessibleToilet = true\<close>.
\<close>

theorem parseOSMElement_flags:
  "\<exists>c. parseOSMElement (OSMNode i la lo t) = Some c
     \<and> wheelchairAccessible (accessibility c)
          = Some (t ''wheelchair'' = Some ''yes'' \<or> t ''wheelchair'' = Some ''limited'')
     \<and> hasRamp (accessibility c) = Some (t ''ramp'' = Some ''yes'')
     \<and> hasElevator (accessibility c)
          = Some (t ''elevator'' = Some ''yes'' \<or> t ''highway'' = Some ''elevator'')
     \<and> hasAccessibleToilet (accessibility c) = Some (t ''toilets:wheelchair'' = Some ''yes'')
     \<and> hasAccessibleParking (accessibility c)
          = Some (t ''parking:disabled'' = Some ''yes''
                  \<or> t ''parking:disabled'' = Some ''designated'')
     \<and> hasAutomaticDoor (accessibility c)
          = Some (t ''automatic_door'' = Some ''yes'' \<or> t ''door'' = Some ''automatic'')
     \<and> (t ''wheelchair'' = None \<longrightarrow> wheelchairAccessible (accessibility c) = Some False)
     \<and> (t ''toilets:wheelchair'' = Some ''yes'' \<longrightarrow>
            facilityTypeId c = ''toilet'' \<and> hasAccessibleToilet (accessibility c) = Some True)"
  by (simp add: accessibility_of_tags_def facilityType_of_tags_def)

theorem parseOSMElement_flags_witness:
  "\<exists>c. parseOSMElement (OSMNode 42 52.52 13.405 [''toilets:wheelchair'' \<mapsto> ''yes'']) = Some c
     \<and> facilityTypeId c = ''toilet''
     \<and> hasAccessibleToilet (accessibility c) = Some True
     \<and> wheelchairAccessible (accessibility c) = Some False"
  using parseOSMElement_flags [of 42 "52.52" "13.405" "[''toilets:wheelchair'' \<mapsto> ''yes'']"]
  by simp

section \<open>Properties of doubles\<close>

text \<open>Bounds of the binary exponent, and rounding.\<close>

lemma bit_length_lower: "0 < n \<Longrightarrow> 2 ^ (bit_length n - 1) \<le> n"
proof (induction n rule: bit_length.induct)
  case (1 n)
  show ?case
  proof (cases "n div 2 = 0")
    case True
    with 1(2) have "n = 1" by (auto simp: div_eq_0_iff)
    then show ?thesis by (simp add: bit_length.simps)
  next
    case False
    then have pos: "0 < n div 2" by simp
    with 1 have ih: "2 ^ (bit_length (n div 2) - 1) \<le> n div 2" by simp
    from pos have "0 < bit_length (n div 2)" by (subst bit_length.simps) simp
    then have "bit_length n - 1 = Suc (bit_length (n div 2) - 1)"
      using 1(2) by (subst bit_length.simps) simp
    then have "2 ^ (bit_length n - 1) = 2 * 2 ^ (bit_length (n div 2) - 1)" by simp
    also have "\<dots> \<le> 2 * (n div 2)" using ih by simp
    also have "\<dots> \<le> n" by simp
    finally show ?thesis .
  qed
qed


lemma round_half_even_int: "round_half_even (of_int n) = n"
  by (simp add: round_half_even_def)

lemma round_half_even_ge: "\<lfloor>x\<rfloor> \<le> round_half_even x"
  by (simp add: round_half_even_def Let_def)


lemma pow2_pos: "0 < pow2 k"
  by (simp add: pow2_def)


lemma pow2_exact: "0 \<le> k \<Longrightarrow> pow2 k = of_int (2 ^ nat k)" "k \<le> 0 \<Longrightarrow> pow2 k = 1 / of_int (2 ^ nat (- k))"
  by (auto simp: pow2_def)

lemma pow2_mono: "j \<le> k \<Longrightarrow> pow2 j \<le> pow2 k"
proof -
  assume "j \<le> k"
  have p: "pow2 i = 2 powr (of_int i)" for i
    by (auto simp: pow2_def powr_realpow[symmetric] powr_minus divide_simps)
  show ?thesis unfolding p using \<open>j \<le> k\<close> by simp
qed

lemma pow2_add: "pow2 (j + k) = pow2 j * pow2 k"
proof -
  have p: "pow2 i = 2 powr (of_int i)" for i
    by (auto simp: pow2_def powr_realpow[symmetric] powr_minus divide_simps)
  show ?thesis unfolding p by (simp add: powr_add)
qed

lemma binary_exponent_int:
  "1 \<le> c \<Longrightarrow> binary_exponent (of_int c) = int (bit_length (nat c)) - 1"
  by (simp add: binary_exponent_def)

lemma mantissa_nonneg: "0 \<le> a \<Longrightarrow> 0 \<le> mantissa a"
proof -
  assume "0 \<le> a"
  then have "0 \<le> a / pow2 (ulp_exponent a)" using pow2_pos [of "ulp_exponent a"] by simp
  then have "0 \<le> \<lfloor>a / pow2 (ulp_exponent a)\<rfloor>" by simp
  then show ?thesis unfolding mantissa_def using round_half_even_ge order_trans by blast
qed

text \<open>
  An integer below \<open>2^53\<close> in absolute value is a double, and no other integer reads back
  as it: \<open>toString\<close> prints its own digits.
\<close>

lemma to_double_small_exact:
  assumes "1 \<le> c" "ulp_exponent (of_int c) \<le> 0"
  shows "to_double (of_int c) = (if (2 :: real) ^ 1024 \<le> of_int c then PlusInfinity else Num (of_int c))"
proof -
  let ?k = "ulp_exponent (of_int c)"
  have p: "pow2 ?k = 1 / of_int (2 ^ nat (- ?k))" using assms(2) by (rule pow2_exact)
  have "of_int c / pow2 ?k = of_int (c * 2 ^ nat (- ?k))" unfolding p by simp
  then have m: "mantissa (of_int c) = c * 2 ^ nat (- ?k)"
    unfolding mantissa_def by (simp only: round_half_even_int)
  have y: "of_int (mantissa (of_int c)) * pow2 ?k = of_int c" unfolding m p by simp
  from assms(1) have "(of_int c :: real) \<noteq> 0" "\<not> (of_int c :: real) < 0" "\<bar>of_int c :: real\<bar> = of_int c"
    by simp_all
  then show ?thesis unfolding to_double_def Let_def by (simp only: y if_False)
qed

lemma to_double_large:
  assumes "1 \<le> c" "1 \<le> ulp_exponent (of_int c)"
  shows "2 ^ 53 \<le> of_int (mantissa (of_int c)) * pow2 (ulp_exponent (of_int c))"
proof -
  let ?k = "ulp_exponent (of_int c)"
  let ?b = "binary_exponent (of_int c)"
  from assms(2) have k: "?k = ?b - 52" and b53: "53 \<le> ?b" by (auto simp: ulp_exponent_def)
  have b: "?b = int (bit_length (nat c)) - 1" using assms(1) by (rule binary_exponent_int)
  from assms(1) have "2 ^ (bit_length (nat c) - 1) \<le> nat c" by (intro bit_length_lower) simp
  moreover have "bit_length (nat c) - 1 = nat ?b" using b b53 by simp
  ultimately have "(2 :: nat) ^ nat ?b \<le> nat c" by simp
  then have "real ((2 :: nat) ^ nat ?b) \<le> real (nat c)" by (rule of_nat_mono)
  then have lo: "pow2 ?b \<le> of_int c" using b53 assms(1) by (simp add: pow2_def)
  have "pow2 ?b = pow2 52 * pow2 ?k" unfolding k using pow2_add [of 52 "?b - 52"] by simp
  with lo have "pow2 52 * pow2 ?k \<le> of_int c" by simp
  then have "pow2 52 \<le> of_int c / pow2 ?k" using pow2_pos [of ?k] by (simp add: pos_le_divide_eq)
  then have "(2 :: real) ^ 52 \<le> of_int c / pow2 ?k" by (simp add: pow2_def)
  then have "(2 :: int) ^ 52 \<le> \<lfloor>of_int c / pow2 ?k\<rfloor>" by (simp add: le_floor_iff)
  then have "(2 :: int) ^ 52 \<le> mantissa (of_int c)"
    unfolding mantissa_def using round_half_even_ge order_trans by blast
  then have m: "(2 :: real) ^ 52 \<le> of_int (mantissa (of_int c))"
    by (metis of_int_le_iff of_int_numeral of_int_power)
  have "pow2 1 \<le> pow2 ?k" using assms(2) by (rule pow2_mono)
  then have "2 \<le> pow2 ?k" by (simp add: pow2_def)
  with m have "2 ^ 52 * 2 \<le> of_int (mantissa (of_int c)) * pow2 ?k"
    by (intro mult_mono) simp_all
  then show ?thesis by simp
qed

lemma reads_back_safe:
  assumes "reads_back c (of_int a)" "0 < a" "a < 2 ^ 53"
  shows "c = a"
proof -
  from assms(1) have r: "to_double (of_int c) = Num (of_int a)" by (simp add: reads_back_def)
  consider "c = 0" | "c < 0" | "1 \<le> c" by linarith
  then show ?thesis
  proof cases
    case 1
    with r assms(2) show ?thesis by (simp add: to_double_def)
  next
    case 2
    then have "0 \<le> mantissa \<bar>of_int c :: real\<bar>" by (intro mantissa_nonneg) simp
    then have "0 \<le> of_int (mantissa \<bar>of_int c :: real\<bar>) * pow2 (ulp_exponent \<bar>of_int c :: real\<bar>)"
      using pow2_pos [of "ulp_exponent \<bar>of_int c :: real\<bar>"] by simp
    with r 2 assms(2) show ?thesis
      by (auto simp: to_double_def Let_def split: if_splits)
  next
    case 3
    show ?thesis
    proof (cases "ulp_exponent (of_int c) \<le> 0")
      case True
      from r show ?thesis unfolding to_double_small_exact [OF 3 True]
        by (simp split: if_splits)
    next
      case False
      then have "1 \<le> ulp_exponent (of_int c)" by simp
      from to_double_large [OF 3 this]
      have big: "2 ^ 53 \<le> of_int (mantissa (of_int c)) * pow2 (ulp_exponent (of_int c))" .
      from 3 have "(of_int c :: real) \<noteq> 0" "\<not> (of_int c :: real) < 0" "\<bar>of_int c :: real\<bar> = of_int c"
        by simp_all
      with r have "of_int (mantissa (of_int c)) * pow2 (ulp_exponent (of_int c)) = (of_int a :: real)"
        by (simp add: to_double_def Let_def split: if_splits)
      with big have "(2 :: real) ^ 53 \<le> of_int a" by simp
      then have "(2 :: int) ^ 53 \<le> a" by (metis of_int_le_iff of_int_numeral of_int_power)
      with assms(3) show ?thesis by simp
    qed
  qed
qed

lemma shortest_digits_safe:
  assumes "0 < a" "a < 2 ^ 53"
  shows "shortest_digits (of_int a) = a"
proof (cases "List.find (\<lambda>c. reads_back c (of_int a)) (concat (map (candidates (of_int a)) [1 ..< 18]))")
  case None
  then show ?thesis by (simp add: shortest_digits_def)
next
  case (Some c)
  then have "reads_back c (of_int a)" by (auto simp: find_Some_iff)
  then have "c = a" using assms by (rule reads_back_safe)
  with Some show ?thesis by (simp add: shortest_digits_def)
qed

lemma printed_integer_safe:
  assumes "- (2 ^ 53) < a" "a < 2 ^ 53"
  shows "printed_integer (of_int a) = a"
proof -
  consider "a = 0" | "0 < a" | "a < 0" by linarith
  then show ?thesis
  proof cases
    case 1
    then show ?thesis by (simp add: printed_integer_def)
  next
    case 2
    with assms show ?thesis by (simp add: printed_integer_def shortest_digits_safe)
  next
    case 3
    with assms have "shortest_digits (of_int (- a)) = - a" by (intro shortest_digits_safe) simp_all
    with 3 show ?thesis by (simp add: printed_integer_def)
  qed
qed

text \<open>How a value is rounded, and the sample numbers.\<close>

lemma to_double_positive:
  assumes "0 < a" "ulp_exponent a = k" "mantissa a = n" "of_int n * pow2 k < 2 ^ 1024"
  shows "to_double a = Num (of_int n * pow2 k)"
proof -
  from assms(1) have "\<bar>a\<bar> = a" "a \<noteq> 0" "\<not> a < 0" by simp_all
  with assms(2-4) show ?thesis by (simp add: to_double_def Let_def)
qed

lemma to_double_negative:
  assumes "0 < a" "ulp_exponent a = k" "mantissa a = n" "of_int n * pow2 k < 2 ^ 1024"
  shows "to_double (- a) = Num (- (of_int n * pow2 k))"
proof -
  from assms(1) have "\<bar>- a\<bar> = a" "- a \<noteq> 0" "- a < 0" by simp_all
  with assms(2-4) show ?thesis by (simp add: to_double_def Let_def)
qed

lemma double_52_5: "to_double 52.5 = Num 52.5"
proof -
  have e: "ulp_exponent 52.5 = - 47"
    by (simp add: ulp_exponent_def binary_exponent_def bit_length.simps)
  have m: "mantissa 52.5 = 7388718138654720"
    unfolding mantissa_def e by (simp add: round_half_even_def pow2_def Let_def)
  have "to_double 52.5 = Num (of_int 7388718138654720 * pow2 (- 47))"
    by (rule to_double_positive [OF _ e m]) (simp_all add: pow2_def)
  then show ?thesis by (simp add: pow2_def)
qed

lemma double_13_375: "to_double 13.375 = Num 13.375"
proof -
  have e: "ulp_exponent 13.375 = - 49"
    by (simp add: ulp_exponent_def binary_exponent_def bit_length.simps)
  have m: "mantissa 13.375 = 7529455627010048"
    unfolding mantissa_def e by (simp add: round_half_even_def pow2_def Let_def)
  have "to_double 13.375 = Num (of_int 7529455627010048 * pow2 (- 49))"
    by (rule to_double_positive [OF _ e m]) (simp_all add: pow2_def)
  then show ?thesis by (simp add: pow2_def)
qed

lemma double_91: "to_double 91 = Num 91"
proof -
  have e: "ulp_exponent 91 = - 46"
    by (simp add: ulp_exponent_def binary_exponent_def bit_length.simps)
  have m: "mantissa 91 = 6403555720167424"
    unfolding mantissa_def e by (simp add: round_half_even_def pow2_def Let_def)
  have "to_double 91 = Num (of_int 6403555720167424 * pow2 (- 46))"
    by (rule to_double_positive [OF _ e m]) (simp_all add: pow2_def)
  then show ?thesis by (simp add: pow2_def)
qed

lemma double_20000000: "to_double 20000000 = Num 20000000"
proof -
  have e: "ulp_exponent 20000000 = - 28"
    by (simp add: ulp_exponent_def binary_exponent_def bit_length.simps)
  have m: "mantissa 20000000 = 5368709120000000"
    unfolding mantissa_def e by (simp add: round_half_even_def pow2_def Let_def)
  have "to_double 20000000 = Num (of_int 5368709120000000 * pow2 (- 28))"
    by (rule to_double_positive [OF _ e m]) (simp_all add: pow2_def)
  then show ?thesis by (simp add: pow2_def)
qed

lemma double_1000: "to_double 1000 = Num 1000"
proof -
  have e: "ulp_exponent 1000 = - 43"
    by (simp add: ulp_exponent_def binary_exponent_def bit_length.simps)
  have m: "mantissa 1000 = 8796093022208000"
    unfolding mantissa_def e by (simp add: round_half_even_def pow2_def Let_def)
  have "to_double 1000 = Num (of_int 8796093022208000 * pow2 (- 43))"
    by (rule to_double_positive [OF _ e m]) (simp_all add: pow2_def)
  then show ?thesis by (simp add: pow2_def)
qed

lemma double_1: "to_double 1 = Num 1" "to_double (- 1) = Num (- 1)"
proof -
  have e: "ulp_exponent 1 = - 52"
    by (simp add: ulp_exponent_def binary_exponent_def bit_length.simps)
  have m: "mantissa 1 = 4503599627370496"
    unfolding mantissa_def e by (simp add: round_half_even_def pow2_def Let_def)
  have "to_double 1 = Num (of_int 4503599627370496 * pow2 (- 52))"
    by (rule to_double_positive [OF _ e m]) (simp_all add: pow2_def)
  then show "to_double 1 = Num 1" by (simp add: pow2_def)
  have "to_double (- 1) = Num (- (of_int 4503599627370496 * pow2 (- 52)))"
    by (rule to_double_negative [OF _ e m]) (simp_all add: pow2_def)
  then show "to_double (- 1) = Num (- 1)" by (simp add: pow2_def)
qed

text \<open>
  The largest \<open>bigint\<close> is not a double: it is read as \<open>2^63\<close>. A latitude a little above
  90 is read as 90.
\<close>

lemma double_largest_bigint: "to_double 9223372036854775807 = Num 9223372036854775808"
proof -
  have e: "ulp_exponent 9223372036854775807 = 10"
    by (simp add: ulp_exponent_def binary_exponent_def bit_length.simps)
  have m: "mantissa 9223372036854775807 = 9007199254740992"
    unfolding mantissa_def e by (simp add: round_half_even_def pow2_def Let_def)
  have "to_double 9223372036854775807 = Num (of_int 9007199254740992 * pow2 10)"
    by (rule to_double_positive [OF _ e m]) (simp_all add: pow2_def)
  then show ?thesis by (simp add: pow2_def)
qed

lemma double_above_90: "to_double 90.00000000000000001 = Num 90"
proof -
  have e: "ulp_exponent 90.00000000000000001 = - 46"
    by (simp add: ulp_exponent_def binary_exponent_def bit_length.simps)
  have m: "mantissa 90.00000000000000001 = 6333186975989760"
    unfolding mantissa_def e by (simp add: round_half_even_def pow2_def Let_def)
  have "to_double 90.00000000000000001 = Num (of_int 6333186975989760 * pow2 (- 46))"
    by (rule to_double_positive [OF _ e m]) (simp_all add: pow2_def)
  then show ?thesis by (simp add: pow2_def)
qed






text \<open>What the database makes of a row count.\<close>

lemma to_bigint_safe:
  assumes "- (2 ^ 53) < a" "a < 2 ^ 53"
  shows "to_bigint (Num (of_int a)) = Inr a"
proof -
  have "(2 :: int) ^ 53 < 10 ^ 21" by simp
  with assms have "\<bar>a\<bar> < 10 ^ 21" by linarith
  then have "\<bar>of_int a :: real\<bar> < 10 ^ 21"
    by (metis of_int_abs of_int_less_iff of_int_numeral of_int_power)
  moreover have "printed_integer (of_int a) = a" using assms by (rule printed_integer_safe)
  ultimately show ?thesis using assms by (simp add: to_bigint_def)
qed


lemma to_bigint_samples:
  "to_bigint (Num 0) = Inr 0" "to_bigint (Num 1) = Inr 1" "to_bigint (Num 20) = Inr 20"
  using to_bigint_safe [of 0] to_bigint_safe [of 1] to_bigint_safe [of 20] by simp_all



section \<open>Properties of the store and the search\<close>

lemma toUpperCase_t: "toUpperCase_char CHR ''t'' = CHR ''T''"
  by code_simp

lemma capitalize_toilet: "capitalize ''toilet'' = ''Toilet''"
  by (simp add: capitalize_def toUpperCase_t)

lemma parse_toilet_node:
  "parseOSMElement (toilet_node i la lo) = Some (toilet_candidate i \<lparr> lat = la, lng = lo \<rparr>)"
  by (simp add: toilet_node_def toilet_candidate_def name_of_tags_def facilityType_of_tags_def
      accessibility_of_tags_def address_of_tags_def js_or_def js_or_str_def truthy_def
      capitalize_toilet)

lemma foldl_sql_and_True:
  "foldl sql_and a cs = Some True \<longleftrightarrow> a = Some True \<and> (\<forall>c \<in> set cs. c = Some True)"
  by (induction cs arbitrary: a) (auto simp: sql_and_def split: if_splits)

lemma where_clause_iff: "where_clause d p r = Some True \<longleftrightarrow> satisfies_query d p r"
  unfolding where_clause_def foldl_sql_and_True satisfies_query_def
  by (auto simp: ST_DWithin_def conditions_def within_radius_def type_filter_ok_def
      wheelchair_filter_ok_def sql_eq_def sql_eq_any_def
      split: jsnum.splits option.splits if_splits)

lemma set_matching_rows:
  "set (matching_rows d p tbl) =
     (\<lambda>r. (r, d (location_col r) (search_center p))) ` {r \<in> set tbl. satisfies_query d p r}"
  by (auto simp: matching_rows_def where_clause_iff)

lemma set_order_by_distance: "set (order_by_distance xs) = set xs"
  by (simp add: order_by_distance_def)

lemma sorted_order_by_distance: "sorted (map snd (order_by_distance xs))"
  by (simp add: order_by_distance_def)

lemma distance_row_to_facility: "distance (row_to_facility rd) = snd rd"
  by (cases rd) (simp add: row_to_facility_def)

lemma facility_id_row_to_facility: "facility_id (row_to_facility rd) = id_col (fst rd)"
  by (cases rd) (simp add: row_to_facility_def)

lemma wheelchair_row_to_facility:
  "wheelchairAccessible (fw_accessibility (row_to_facility rd)) = wheelchair_accessible (fst rd)"
  by (cases rd) (simp add: row_to_facility_def)

lemma search_result_cases:
  assumes "searchNearbyFacilities d db p = Inr res"
  obtains l off where "search_limit p = Inr l" "search_offset p = Inr off"
    "res = map row_to_facility
             (take l (drop off (order_by_distance (matching_rows d p (facilities db)))))"
  using assms by (auto simp: searchNearbyFacilities_def split: sum.splits)

lemma searchNearbyFacilities_page:
  assumes "search_limit p = Inr l" and "search_offset p = Inr off"
  shows "searchNearbyFacilities d db p =
           Inr (map row_to_facility
                 (take l (drop off (order_by_distance (matching_rows d p (facilities db))))))"
proof -
  from assms(1) obtain n where "to_bigint (limit_parameter p) = Inr n"
    by (cases "to_bigint (limit_parameter p)") (auto simp: search_limit_def row_count_def)
  with assms show ?thesis by (simp add: searchNearbyFacilities_def)
qed

lemma search_result_from_rows:
  assumes "searchNearbyFacilities d db p = Inr res" and "x \<in> set res"
  obtains r where "r \<in> set (facilities db)" "satisfies_query d p r"
    "x = row_to_facility (r, d (location_col r) (search_center p))"
proof -
  from assms(1) obtain l off where
    res: "res = map row_to_facility
             (take l (drop off (order_by_distance (matching_rows d p (facilities db)))))"
    by (rule search_result_cases)
  from assms(2) obtain rd where rd: "x = row_to_facility rd"
    "rd \<in> set (take l (drop off (order_by_distance (matching_rows d p (facilities db)))))"
    unfolding res by auto
  from rd(2) have "rd \<in> set (matching_rows d p (facilities db))"
    using set_order_by_distance by (metis in_set_dropD in_set_takeD)
  then show thesis using rd(1) that by (auto simp: set_matching_rows)
qed

text \<open>
  C7, amended: the list returned by the nearby search is ordered by non-decreasing
  distance from the query center. (The statement has no second sort key: the order of
  results at equal distance is not determined, and is not the order of their ids.)
\<close>

theorem searchNearbyFacilities_sorted_by_distance: 
  "searchNearbyFacilities d db p = Inr res \<Longrightarrow> sorted (map distance res)"
proof -
  assume "searchNearbyFacilities d db p = Inr res"
  then obtain l off where
    res: "res = map row_to_facility
             (take l (drop off (order_by_distance (matching_rows d p (facilities db)))))"
    by (rule search_result_cases)
  have "map distance res
        = take l (drop off (map snd (order_by_distance (matching_rows d p (facilities db)))))"
    unfolding res by (simp add: take_map drop_map distance_row_to_facility comp_def)
  then show ?thesis
    using sorted_order_by_distance by (simp add: sorted_wrt_take sorted_wrt_drop)
qed

lemma greatCircleDistance_same: "greatCircleDistance a a = 0"
  by (simp add: greatCircleDistance_def deg2rad_def)

lemma abs_sin_eq: "\<bar>y\<bar> \<le> pi \<Longrightarrow> \<bar>sin y\<bar> = sin \<bar>y :: real\<bar>"
proof (cases "0 \<le> y")
  case True
  assume "\<bar>y\<bar> \<le> pi"
  with True have "0 \<le> sin y" by (intro sin_ge_zero) auto
  with True show ?thesis by simp
next
  case False
  assume "\<bar>y\<bar> \<le> pi"
  with False have "0 \<le> sin (- y)" by (intro sin_ge_zero) auto
  with False show ?thesis by simp
qed

lemma greatCircleDistance_meridian:
  assumes "lng a = lng b" "\<bar>lat b - lat a\<bar> \<le> 180"
  shows "greatCircleDistance a b = 6371000 * deg2rad \<bar>lat b - lat a\<bar>"
proof -
  let ?x = "deg2rad (lat b - lat a) / 2"
  have "\<bar>?x\<bar> = \<bar>lat b - lat a\<bar> * (pi / 360)"
    by (simp add: deg2rad_def abs_mult)
  also have "\<dots> \<le> 180 * (pi / 360)"
    using assms(2) by (intro mult_right_mono) auto
  finally have x: "\<bar>?x\<bar> \<le> pi / 2" by simp
  have "greatCircleDistance a b = 2 * 6371000 * arcsin (sqrt ((sin ?x)\<^sup>2))"
    using assms(1) by (simp add: greatCircleDistance_def deg2rad_def)
  also have "sqrt ((sin ?x)\<^sup>2) = \<bar>sin ?x\<bar>" by simp
  also have "\<bar>sin ?x\<bar> = sin \<bar>?x\<bar>"
    using x pi_ge_zero by (intro abs_sin_eq) linarith
  also have "arcsin (sin \<bar>?x\<bar>) = \<bar>?x\<bar>" using x by (intro arcsin_sin) auto
  finally show ?thesis by (simp add: deg2rad_def abs_mult)
qed

text \<open>
  C3, amended: every facility in the result lies within the radius (boundary
  inclusive), is not tombstoned and passes the type and wheelchair filters that were
  given; when the requested page starts at offset 0 and its limit is at least the number
  of matching facilities, a facility of the store is in the result if and only if it
  satisfies these conditions; a tombstoned facility is returned neither by the search
  nor by \<open>getFacilityById\<close>.
\<close>

theorem searchNearbyFacilities_membership:
  assumes "distinct (map id_col (facilities db))" and "F \<in> set (facilities db)"
    and "searchNearbyFacilities d db p = Inr res"
  shows "(id_col F \<in> facility_id ` set res \<longrightarrow> satisfies_query d p F)
       \<and> (page_covers p (length (matching_rows d p (facilities db))) \<longrightarrow>
            (id_col F \<in> facility_id ` set res \<longleftrightarrow> satisfies_query d p F))
       \<and> (deleted_at F \<noteq> None \<longrightarrow>
            id_col F \<notin> facility_id ` set res \<and> getFacilityById db (id_col F) = None)"
proof -
  have sound: "satisfies_query d p F" if "id_col F \<in> facility_id ` set res"
  proof -
    from that obtain x where x: "x \<in> set res" "facility_id x = id_col F" by auto
    from assms(3) x(1) obtain r where r: "r \<in> set (facilities db)" "satisfies_query d p r"
      "x = row_to_facility (r, d (location_col r) (search_center p))"
      by (rule search_result_from_rows)
    from r(3) x(2) have "id_col r = id_col F" by (simp add: facility_id_row_to_facility)
    with assms(1,2) r(1) have "r = F" by (meson distinct_map inj_onD)
    with r(2) show ?thesis by simp
  qed
  have complete: "id_col F \<in> facility_id ` set res"
    if cov: "page_covers p (length (matching_rows d p (facilities db)))"
      and sat: "satisfies_query d p F"
  proof -
    let ?ms = "order_by_distance (matching_rows d p (facilities db))"
    from assms(3) obtain l off where lo: "search_limit p = Inr l" "search_offset p = Inr off"
      "res = map row_to_facility (take l (drop off ?ms))"
      by (rule search_result_cases)
    from cov lo(1,2) have "off = 0" "length ?ms \<le> l"
      by (auto simp: page_covers_def order_by_distance_def)
    then have "res = map row_to_facility ?ms" using lo(3) by simp
    moreover have "(F, d (location_col F) (search_center p)) \<in> set ?ms"
      using assms(2) sat by (auto simp: set_order_by_distance set_matching_rows)
    ultimately have "row_to_facility (F, d (location_col F) (search_center p)) \<in> set res"
      by auto
    then show ?thesis by (force simp: facility_id_row_to_facility)
  qed
  have gone: "getFacilityById db (id_col F) = None" if del: "deleted_at F \<noteq> None"
  proof -
    have "r = F" if "r \<in> set (facilities db)" "id_col r = id_col F" for r
      using that assms(1,2) by (meson distinct_map inj_onD)
    with del show ?thesis by (auto simp: getFacilityById_def find_None_iff)
  qed
  have hidden: "id_col F \<notin> facility_id ` set res" if del: "deleted_at F \<noteq> None"
    using sound del by (auto simp: satisfies_query_def)
  show ?thesis using sound complete gone hidden by blast
qed

lemma to_decimal_exact:
  "to_decimal 10 8 52.52 = Inr 52.52" "to_decimal 10 8 52.521 = Inr 52.521"
  "to_decimal 10 8 52.62 = Inr 52.62" "to_decimal 11 8 13.405 = Inr 13.405"
  "to_decimal 3 2 0.7 = Inr 0.7"
  by (simp_all add: to_decimal_def pg_round_def)

lemma sample_locations_fit:
  "\<not> isl (to_decimal 10 8 (lat at_center))" "\<not> isl (to_decimal 11 8 (lng at_center))"
  "\<not> isl (to_decimal 10 8 (lat nearby))" "\<not> isl (to_decimal 11 8 (lng nearby))"
  "\<not> isl (to_decimal 10 8 (lat far_away))" "\<not> isl (to_decimal 11 8 (lng far_away))"
  by (simp_all add: at_center_def nearby_def far_away_def to_decimal_def pg_round_def)

lemma insert_error_toilet:
  "insert_error db u (toilet_candidate i loc) =
     (if isl (to_decimal 10 8 (lat loc)) \<or> isl (to_decimal 11 8 (lng loc))
        then Some NumericValueOutOfRange
      else if u \<in> set (map id_col (facilities db)) then Some UniqueViolation else None)"
  by (simp add: insert_error_def toilet_candidate_def to_varchar_def opt_coerce_def
      to_decimal_exact facility_type_ids_def)

lemma facilities_berlin_db:
  "facilities (berlin_db (\<lambda>n. n + 10)) =
     [new_row 10 (toilet_candidate 101 at_center), new_row 11 (toilet_candidate 102 nearby),
      new_row 12 (toilet_candidate 103 far_away)]"
  by (simp add: berlin_db_def empty_db_def createFacility_def Let_def insert_error_toilet
      sample_locations_fit new_row_def)

lemma new_row_fields:
  "id_col (new_row u f) = u" "deleted_at (new_row u f) = None"
  "location_col (new_row u f) = location f"
  "wheelchair_accessible (new_row u f) = wheelchairAccessible (accessibility f)"
  "facility_type_id (new_row u f) = Some (facilityTypeId f)"
  by (simp_all add: new_row_def)

lemma toilet_candidate_fields:
  "location (toilet_candidate i loc) = loc"
  "wheelchairAccessible (accessibility (toilet_candidate i loc)) = Some False"
  "facilityTypeId (toilet_candidate i loc) = ''toilet''"
  by (simp_all add: toilet_candidate_def)

lemma berlin_distances:
  "greatCircleDistance at_center at_center = 0"
  "greatCircleDistance nearby at_center = 159275 * pi / 1152"
  "greatCircleDistance far_away at_center = 159275 * pi / 36"
  by (simp_all add: greatCircleDistance_same greatCircleDistance_meridian deg2rad_def
      at_center_def nearby_def far_away_def)

lemma pi_bounds: "159275 * pi \<le> 1152000" "\<not> 159275 * pi \<le> 36000"
  using pi_less_4 pi_ge_two by linarith+

lemma berlin_query_fields:
  "search_center berlin_query = at_center" "search_radius berlin_query = Num 1000"
  "sp_facilityTypes berlin_query = None" "sp_wheelchairAccessible berlin_query = None"
  by (simp_all add: search_center_def search_radius_def berlin_query_def at_center_def)

lemma satisfies_berlin:
  "satisfies_query greatCircleDistance berlin_query (new_row 10 (toilet_candidate 101 at_center))"
  "satisfies_query greatCircleDistance berlin_query (new_row 11 (toilet_candidate 102 nearby))"
  "\<not> satisfies_query greatCircleDistance berlin_query (new_row 12 (toilet_candidate 103 far_away))"
  by (simp_all add: satisfies_query_def within_radius_def type_filter_ok_def
      wheelchair_filter_ok_def berlin_query_fields
      new_row_fields toilet_candidate_fields berlin_distances pi_bounds)

lemma berlin_limits: "search_limit berlin_query = Inr 20" "search_offset berlin_query = Inr 0"
  by (simp_all add: search_limit_def search_offset_def limit_parameter_def offset_parameter_def row_count_def
      to_bigint_samples berlin_query_def)

lemma search_berlin:
  "searchNearbyFacilities greatCircleDistance (berlin_db (\<lambda>n. n + 10)) berlin_query =
     Inr (map row_to_facility
       [(new_row 10 (toilet_candidate 101 at_center), 0),
        (new_row 11 (toilet_candidate 102 nearby), 159275 * pi / 1152)])"
  by (simp add: searchNearbyFacilities_page [OF berlin_limits] facilities_berlin_db matching_rows_def
      where_clause_iff satisfies_berlin order_by_distance_def new_row_fields berlin_distances
      pi_bounds toilet_candidate_fields berlin_query_fields)












lemma berlin_first_only_fields:
  "search_center berlin_first_only = at_center" "search_radius berlin_first_only = Num 1000"
  "sp_facilityTypes berlin_first_only = None" "sp_wheelchairAccessible berlin_first_only = None"
  "search_limit berlin_first_only = Inr 1" "search_offset berlin_first_only = Inr 0"
  by (simp_all add: search_center_def search_radius_def berlin_first_only_def berlin_query_def
      at_center_def search_limit_def search_offset_def limit_parameter_def offset_parameter_def row_count_def
      to_bigint_samples)

lemma satisfies_first_only:
  "satisfies_query greatCircleDistance berlin_first_only (new_row 10 (toilet_candidate 101 at_center))"
  "satisfies_query greatCircleDistance berlin_first_only (new_row 11 (toilet_candidate 102 nearby))"
  "\<not> satisfies_query greatCircleDistance berlin_first_only (new_row 12 (toilet_candidate 103 far_away))"
  by (simp_all add: satisfies_query_def within_radius_def type_filter_ok_def
      wheelchair_filter_ok_def berlin_first_only_fields
      new_row_fields toilet_candidate_fields berlin_distances pi_bounds)

text \<open>
  C3, as stated, says every facility in range appears in the result. With
  \<open>limit = 1\<close> the facility 434 m from the center is within the 1000 m radius, is not
  tombstoned, and is not in the result: only the facility with id 10 is.
\<close>

theorem search_page_hides_facility_in_range:
  "new_row 11 (toilet_candidate 102 nearby) \<in> set (facilities (berlin_db (\<lambda>n. n + 10)))
   \<and> satisfies_query greatCircleDistance berlin_first_only (new_row 11 (toilet_candidate 102 nearby))
   \<and> searchNearbyFacilities greatCircleDistance (berlin_db (\<lambda>n. n + 10)) berlin_first_only
       = Inr [row_to_facility (new_row 10 (toilet_candidate 101 at_center), 0)]
   \<and> facility_id (row_to_facility (new_row 10 (toilet_candidate 101 at_center), 0)) = 10
   \<and> id_col (new_row 11 (toilet_candidate 102 nearby)) = 11"
  by (simp add: searchNearbyFacilities_page [OF berlin_first_only_fields(5,6)]
      berlin_first_only_fields facilities_berlin_db
      matching_rows_def where_clause_iff satisfies_first_only order_by_distance_def new_row_fields
      berlin_distances pi_bounds toilet_candidate_fields facility_id_row_to_facility)

lemma berlin_page_covers:
  "page_covers berlin_query
     (length (matching_rows greatCircleDistance berlin_query (facilities (berlin_db (\<lambda>n. n + 10)))))"
  by (simp add: page_covers_def berlin_limits facilities_berlin_db matching_rows_def)

lemma facilities_tombstoned:
  "facilities (tombstoned 11 7 (berlin_db (\<lambda>n. n + 10))) =
     [new_row 10 (toilet_candidate 101 at_center),
      (new_row 11 (toilet_candidate 102 nearby)) \<lparr> deleted_at := Some 7 \<rparr>,
      new_row 12 (toilet_candidate 103 far_away)]"
  by (simp add: tombstoned_def facilities_berlin_db new_row_fields)

lemma satisfies_tombstoned:
  "\<not> satisfies_query greatCircleDistance berlin_query
       ((new_row 11 (toilet_candidate 102 nearby)) \<lparr> deleted_at := Some 7 \<rparr>)"
  by (simp add: satisfies_query_def)

lemma search_tombstoned:
  "searchNearbyFacilities greatCircleDistance (tombstoned 11 7 (berlin_db (\<lambda>n. n + 10)))
       berlin_query
     = Inr [row_to_facility (new_row 10 (toilet_candidate 101 at_center), 0)]"
  by (simp add: searchNearbyFacilities_page [OF berlin_limits] facilities_tombstoned matching_rows_def
      where_clause_iff satisfies_berlin satisfies_tombstoned order_by_distance_def new_row_fields
      berlin_distances toilet_candidate_fields berlin_query_fields)

text \<open>
  C3, at the sample store: the facility 434 m away is returned by a 1000 m search, and
  after it is tombstoned it is returned no more.
\<close>

theorem searchNearbyFacilities_membership_witness:
  "distinct (map id_col (facilities (berlin_db (\<lambda>n. n + 10))))
   \<and> new_row 11 (toilet_candidate 102 nearby) \<in> set (facilities (berlin_db (\<lambda>n. n + 10)))
   \<and> searchNearbyFacilities greatCircleDistance (berlin_db (\<lambda>n. n + 10)) berlin_query
       = Inr (map row_to_facility
           [(new_row 10 (toilet_candidate 101 at_center), 0),
            (new_row 11 (toilet_candidate 102 nearby), 159275 * pi / 1152)])
   \<and> page_covers berlin_query
       (length (matching_rows greatCircleDistance berlin_query
          (facilities (berlin_db (\<lambda>n. n + 10)))))
   \<and> id_col (new_row 11 (toilet_candidate 102 nearby))
       \<in> facility_id ` set (map row_to_facility
           [(new_row 10 (toilet_candidate 101 at_center), 0),
            (new_row 11 (toilet_candidate 102 nearby), 159275 * pi / 1152)])
   \<and> satisfies_query greatCircleDistance berlin_query (new_row 11 (toilet_candidate 102 nearby))
   \<and> deleted_at ((new_row 11 (toilet_candidate 102 nearby)) \<lparr> deleted_at := Some 7 \<rparr>) \<noteq> None
   \<and> searchNearbyFacilities greatCircleDistance (tombstoned 11 7 (berlin_db (\<lambda>n. n + 10)))
         berlin_query
       = Inr [row_to_facility (new_row 10 (toilet_candidate 101 at_center), 0)]
   \<and> getFacilityById (tombstoned 11 7 (berlin_db (\<lambda>n. n + 10))) 11 = None"
proof -
  have 1: "distinct (map id_col (facilities (berlin_db (\<lambda>n. n + 10))))"
    by (simp add: facilities_berlin_db new_row_fields)
  have 2: "new_row 11 (toilet_candidate 102 nearby) \<in> set (facilities (berlin_db (\<lambda>n. n + 10)))"
    by (simp add: facilities_berlin_db)
  have 3: "distinct (map id_col (facilities (tombstoned 11 7 (berlin_db (\<lambda>n. n + 10)))))"
    by (simp add: facilities_tombstoned new_row_fields)
  have 4: "(new_row 11 (toilet_candidate 102 nearby)) \<lparr> deleted_at := Some 7 \<rparr>
             \<in> set (facilities (tombstoned 11 7 (berlin_db (\<lambda>n. n + 10))))"
    by (simp add: facilities_tombstoned)
  have 5: "id_col ((new_row 11 (toilet_candidate 102 nearby)) \<lparr> deleted_at := Some 7 \<rparr>) = 11"
    by (simp add: new_row_fields)
  from searchNearbyFacilities_membership [OF 1 2 search_berlin] searchNearbyFacilities_membership [OF 3 4 search_tombstoned]
    berlin_page_covers satisfies_berlin(2) 1 2 5 search_berlin search_tombstoned
  show ?thesis by simp
qed

lemma facilities_twin_db:
  "facilities (twin_db (\<lambda>n. 20 - n)) =
     [new_row 20 (toilet_candidate 101 at_center), new_row 19 (toilet_candidate 104 at_center)]"
  by (simp add: twin_db_def empty_db_def createFacility_def Let_def insert_error_toilet
      sample_locations_fit new_row_def)

text \<open>
  C7, as stated, says results at equal distance are ordered by facility id. Two
  facilities at the same place, the first created with id 20 and the second with id 19,
  come back as 20, 19.
\<close>

theorem ties_not_ordered_by_id:
  "searchNearbyFacilities greatCircleDistance (twin_db (\<lambda>n. 20 - n)) berlin_query
     = Inr [row_to_facility (new_row 20 (toilet_candidate 101 at_center), 0),
            row_to_facility (new_row 19 (toilet_candidate 104 at_center), 0)]
   \<and> facility_id (row_to_facility (new_row 20 (toilet_candidate 101 at_center), 0)) = 20
   \<and> facility_id (row_to_facility (new_row 19 (toilet_candidate 104 at_center), 0)) = 19
   \<and> distance (row_to_facility (new_row 20 (toilet_candidate 101 at_center), 0))
       = distance (row_to_facility (new_row 19 (toilet_candidate 104 at_center), 0))"
  by (simp add: searchNearbyFacilities_page [OF berlin_limits] facilities_twin_db
      matching_rows_def where_clause_iff satisfies_query_def within_radius_def type_filter_ok_def
      wheelchair_filter_ok_def order_by_distance_def new_row_fields
      berlin_distances toilet_candidate_fields berlin_query_fields facility_id_row_to_facility
      distance_row_to_facility)

text \<open>C7, at the sample store: the two facilities in range come back nearest first.\<close>

theorem searchNearbyFacilities_sorted_by_distance_witness:
  "searchNearbyFacilities greatCircleDistance (berlin_db (\<lambda>n. n + 10)) berlin_query
       = Inr (map row_to_facility
           [(new_row 10 (toilet_candidate 101 at_center), 0),
            (new_row 11 (toilet_candidate 102 nearby), 159275 * pi / 1152)])
   \<and> sorted (map distance (map row_to_facility
           [(new_row 10 (toilet_candidate 101 at_center), 0),
            (new_row 11 (toilet_candidate 102 nearby), 159275 * pi / 1152)]))"
  using searchNearbyFacilities_sorted_by_distance [OF search_berlin] search_berlin by blast

lemma berlin_not_accessible_fields:
  "search_center berlin_not_accessible = at_center" "search_radius berlin_not_accessible = Num 1000"
  "sp_facilityTypes berlin_not_accessible = None"
  "sp_wheelchairAccessible berlin_not_accessible = Some False"
  "search_limit berlin_not_accessible = Inr 20" "search_offset berlin_not_accessible = Inr 0"
  by (simp_all add: search_center_def search_radius_def berlin_not_accessible_def berlin_query_def
      at_center_def search_limit_def search_offset_def limit_parameter_def offset_parameter_def row_count_def
      to_bigint_samples)

section \<open>Properties of the ingestion client and the import\<close>

lemma insert_error_fresh:
  "u \<notin> set (map id_col (facilities db)) \<Longrightarrow> insert_error db u f = None \<longleftrightarrow> schema_accepts f"
  by (auto simp: insert_error_def schema_accepts_def)

lemma uuid_fresh_current:
  "uuid_fresh db \<Longrightarrow> uuid_source db (uuid_draws db) \<notin> set (map id_col (facilities db))"
  by (simp add: uuid_fresh_def)

lemma createFacility_accepted:
  assumes "uuid_fresh db" "schema_accepts f"
  shows "createFacility db f =
           (Inr (uuid_source db (uuid_draws db)),
            db \<lparr> uuid_draws := Suc (uuid_draws db),
                 facilities := facilities db @ [new_row (uuid_source db (uuid_draws db)) f] \<rparr>)"
  using assms insert_error_fresh [OF uuid_fresh_current [OF assms(1)], of f]
  by (simp add: createFacility_def Let_def)

lemma createFacility_rejected:
  assumes "uuid_fresh db" "\<not> schema_accepts f"
  shows "\<exists>e. createFacility db f = (Inl e, db \<lparr> uuid_draws := Suc (uuid_draws db) \<rparr>)"
  using assms insert_error_fresh [OF uuid_fresh_current [OF assms(1)], of f]
  by (cases "insert_error db (uuid_source db (uuid_draws db)) f")
     (simp_all add: createFacility_def Let_def)

lemma uuid_fresh_skip: "uuid_fresh db \<Longrightarrow> uuid_fresh (db \<lparr> uuid_draws := Suc (uuid_draws db) \<rparr>)"
  unfolding uuid_fresh_def
  by (auto intro: inj_on_subset)

lemma uuid_fresh_insert:
  assumes "uuid_fresh db"
  shows "uuid_fresh (db \<lparr> uuid_draws := Suc (uuid_draws db),
            facilities := facilities db @ [new_row (uuid_source db (uuid_draws db)) f] \<rparr>)"
proof -
  have inj: "inj_on (uuid_source db) {uuid_draws db ..}" using assms by (simp add: uuid_fresh_def)
  have "uuid_source db n \<noteq> uuid_source db (uuid_draws db)" if "Suc (uuid_draws db) \<le> n" for n
    using inj_onD [OF inj, of n "uuid_draws db"] that by auto
  moreover have "id_col (new_row u f) = u" for u by (simp add: new_row_def)
  ultimately show ?thesis
    using assms unfolding uuid_fresh_def by (auto intro: inj_on_subset)
qed

lemma import_elements_fresh:
  assumes "uuid_fresh db"
  shows "snd (import_elements db els n) = n + length (filter create_succeeds els)
       \<and> facilities (fst (import_elements db els n))
           = facilities db @ imported_rows (uuid_source db) (uuid_draws db) els
       \<and> uuid_source (fst (import_elements db els n)) = uuid_source db
       \<and> uuid_fresh (fst (import_elements db els n))"
  using assms
proof (induction els arbitrary: db n)
  case Nil
  then show ?case by simp
next
  case (Cons e es)
  show ?case
  proof (cases "parseOSMElement e")
    case None
    then show ?thesis using Cons.IH [OF Cons.prems] by (simp add: create_succeeds_def)
  next
    case (Some f)
    show ?thesis
    proof (cases "schema_accepts f")
      case True
      let ?db = "db \<lparr> uuid_draws := Suc (uuid_draws db),
            facilities := facilities db @ [new_row (uuid_source db (uuid_draws db)) f] \<rparr>"
      have "uuid_fresh ?db" by (rule uuid_fresh_insert [OF Cons.prems])
      from Cons.IH [OF this, of "Suc n"] show ?thesis
        using Some True createFacility_accepted [OF Cons.prems True]
        by (simp add: create_succeeds_def)
    next
      case False
      let ?db = "db \<lparr> uuid_draws := Suc (uuid_draws db) \<rparr>"
      have "uuid_fresh ?db" by (rule uuid_fresh_skip [OF Cons.prems])
      from Cons.IH [OF this, of n] show ?thesis
        using Some False createFacility_rejected [OF Cons.prems False]
        by (auto simp add: create_succeeds_def)
    qed
  qed
qed

lemma length_imported_rows: "length (imported_rows src k els) = length (filter create_succeeds els)"
  by (induction els arbitrary: k) (auto simp: create_succeeds_def split: option.splits)

lemma external_ids_imported_rows:
  "map (\<lambda>r. (external_ids r, deleted_at r)) (imported_rows src k els)
     = map (\<lambda>r. (external_ids r, deleted_at r)) (imported_rows src' k' els)"
  by (induction els arbitrary: k k') (auto simp: new_row_def split: option.splits)

lemma partition_elements:
  "length els = length (filter skipped els) + length (filter create_fails els)
      + length (filter create_succeeds els)"
  by (induction els)
     (auto simp: skipped_def create_fails_def create_succeeds_def split: option.splits)

lemma fetch_success:
  "fetchOSMFacilities c = (Inr els, c') \<Longrightarrow>
     importOSMFacilities c db
       = (Inr (snd (import_elements db els 0)), c', fst (import_elements db els 0))
     \<and> syncOSMDataForArea c db
       = (Inr (length els, snd (import_elements db els 0)), c', fst (import_elements db els 0))"
  by (simp add: importOSMFacilities_def syncOSMDataForArea_def split: prod.splits)

text \<open>
  C4, amended: when every element of the fetched batch is a node and exactly one of them
  fails its create, the run does not abort: every other element is imported, and
  \<open>importOSMFacilities\<close> returns the imported count \<open>N - 1\<close> for an \<open>N\<close>-element batch
  (\<open>syncOSMDataForArea\<close> returns the total \<open>N\<close> with it). The result is that count
  alone; it has no skipped or failed count.
\<close>

theorem import_continues_after_failed_create:
  assumes "uuid_fresh db" and "fetchOSMFacilities c = (Inr els, c')"
    and "filter skipped els = []" and "length (filter create_fails els) = 1"
  shows "fst (importOSMFacilities c db) = Inr (length els - 1)
       \<and> length (facilities (snd (snd (importOSMFacilities c db))))
           = length (facilities db) + (length els - 1)
       \<and> fst (syncOSMDataForArea c db) = Inr (length els, length els - 1)"
proof -
  have n: "length (filter create_succeeds els) = length els - 1"
    using partition_elements [of els] assms(3,4) by simp
  note loop = import_elements_fresh [OF assms(1), of els 0]
  from fetch_success [OF assms(2), of db] loop n show ?thesis
    by (simp add: length_imported_rows)
qed

text \<open>
  C2, amended: the import looks nothing up before it writes. With an id generator that
  returns new ids, a second run over the identical element set imports as many
  facilities as the first (every element whose candidate the table accepts), so after it
  the store holds, for each of them, a second non-tombstoned row with the same external
  ids.
\<close>

theorem reimport_creates_duplicates:
  assumes "uuid_fresh db"
    and "fetchOSMFacilities c1 = (Inr els, c1')" and "fetchOSMFacilities c2 = (Inr els, c2')"
    and "importOSMFacilities c1 db = (r1, c1'', db1)"
    and "importOSMFacilities c2 db1 = (r2, c2'', db2)"
  shows "r1 = Inr (length (filter create_succeeds els)) \<and> r2 = r1
       \<and> (\<exists>rows1 rows2.
             facilities db1 = facilities db @ rows1 \<and> facilities db2 = facilities db1 @ rows2
             \<and> length rows1 = length (filter create_succeeds els)
             \<and> map external_ids rows2 = map external_ids rows1
             \<and> (\<forall>r \<in> set (rows1 @ rows2). deleted_at r = None))"
proof -
  let ?n = "length (filter create_succeeds els)"
  note loop1 = import_elements_fresh [OF assms(1), of els 0]
  from fetch_success [OF assms(2), of db] assms(4)
  have r1: "r1 = Inr (snd (import_elements db els 0))" and db1: "db1 = fst (import_elements db els 0)"
    by simp_all
  from loop1 db1 have fresh1: "uuid_fresh db1" by simp
  note loop2 = import_elements_fresh [OF fresh1, of els 0]
  from fetch_success [OF assms(3), of db1] assms(5)
  have r2: "r2 = Inr (snd (import_elements db1 els 0))" and db2: "db2 = fst (import_elements db1 els 0)"
    by simp_all
  let ?rows1 = "imported_rows (uuid_source db) (uuid_draws db) els"
  let ?rows2 = "imported_rows (uuid_source db1) (uuid_draws db1) els"
  have ext: "map (\<lambda>r. (external_ids r, deleted_at r)) ?rows2
           = map (\<lambda>r. (external_ids r, deleted_at r)) ?rows1"
    by (rule external_ids_imported_rows)
  have "map external_ids ?rows2 = map external_ids ?rows1"
    using arg_cong [OF ext, of "map fst"] by (simp add: comp_def)
  moreover have "deleted_at r = None" if "r \<in> set (imported_rows src k els)" for r src k
    using that by (induction els arbitrary: k) (auto simp: new_row_def split: option.splits if_splits)
  ultimately have "facilities db1 = facilities db @ ?rows1 \<and> facilities db2 = facilities db1 @ ?rows2
             \<and> length ?rows1 = ?n
             \<and> map external_ids ?rows2 = map external_ids ?rows1
             \<and> (\<forall>r \<in> set (?rows1 @ ?rows2). deleted_at r = None)"
    using loop1 loop2 db1 db2 by (auto simp: length_imported_rows)
  then have "\<exists>rows1 rows2.
             facilities db1 = facilities db @ rows1 \<and> facilities db2 = facilities db1 @ rows2
             \<and> length rows1 = ?n
             \<and> map external_ids rows2 = map external_ids rows1
             \<and> (\<forall>r \<in> set (rows1 @ rows2). deleted_at r = None)"
    by blast
  moreover have "r1 = Inr ?n" "r2 = r1" using r1 r2 loop1 loop2 by simp_all
  ultimately show ?thesis by blast
qed

lemma pass_gate_sent:
  "sent (snd (pass_gate c)) = sent c @ [clock c] \<and> lastRequestTime (snd (pass_gate c)) = clock c"
  by (simp add: pass_gate_def Let_def split: list.splits prod.splits)

lemma pass_gate_answer:
  "overpass c = (latency, a) # rest \<Longrightarrow>
     fst (pass_gate c) = a \<and> overpass (snd (pass_gate c)) = rest"
  by (simp add: pass_gate_def Let_def)

text \<open>
  A call on its own posts its request at least \<open>rateLimitMs\<close> after the time recorded in
  \<open>lastRequestTime\<close>.
\<close>

lemma rateLimitedRequest_spacing:
  "\<exists>t. sent (snd (rateLimitedRequest c)) = sent c @ [t]
       \<and> lastRequestTime (snd (rateLimitedRequest c)) = t
       \<and> lastRequestTime c + rateLimitMs \<le> t \<and> clock c \<le> t"
  by (auto simp: rateLimitedRequest_def enter_gate_def Let_def pass_gate_sent rateLimitMs_def)

lemma rateLimitedRequest_answer:
  "overpass c = (latency, a) # rest \<Longrightarrow>
     fst (rateLimitedRequest c) = a \<and> overpass (snd (rateLimitedRequest c)) = rest"
  by (auto simp: rateLimitedRequest_def pass_gate_answer split: option.splits)

text \<open>
  C5, amended: a fetch posts exactly one request. When that request fails, the error
  goes to the caller at once, wrapped as "Failed to fetch OSM data: ...", the answers
  still to come are left untouched, and the import run fails with that error and writes
  nothing. There is no retry and no backoff.
\<close>

theorem fetch_not_retried:
  "length (sent (snd (fetchOSMFacilities c))) = Suc (length (sent c))
   \<and> (overpass c = (latency, Inl message) # rest \<longrightarrow>
        fst (fetchOSMFacilities c) = Inl (''Failed to fetch OSM data: '' @ message)
        \<and> overpass (snd (fetchOSMFacilities c)) = rest
        \<and> fst (importOSMFacilities c db) = Inl (''Failed to fetch OSM data: '' @ message)
        \<and> snd (snd (importOSMFacilities c db)) = db)"
proof -
  obtain a c' where rl: "rateLimitedRequest c = (a, c')" by (cases "rateLimitedRequest c")
  have f: "fetchOSMFacilities c
      = (case a of Inl m \<Rightarrow> Inl (''Failed to fetch OSM data: '' @ m) | Inr els \<Rightarrow> Inr els, c')"
    by (simp add: fetchOSMFacilities_def rl split: sum.splits)
  have 1: "length (sent (snd (fetchOSMFacilities c))) = Suc (length (sent c))"
    using rateLimitedRequest_spacing [of c] by (auto simp: f rl)
  have 2: "fst (fetchOSMFacilities c) = Inl (''Failed to fetch OSM data: '' @ message)
        \<and> overpass (snd (fetchOSMFacilities c)) = rest
        \<and> fst (importOSMFacilities c db) = Inl (''Failed to fetch OSM data: '' @ message)
        \<and> snd (snd (importOSMFacilities c db)) = db"
    if "overpass c = (latency, Inl message) # rest"
    using rateLimitedRequest_answer [OF that] by (simp add: f rl importOSMFacilities_def)
  show ?thesis using 1 2 by blast
qed

lemma uuid_fresh_empty: "uuid_fresh (empty_db (\<lambda>n. n + 10))"
  by (simp add: uuid_fresh_def empty_db_def inj_on_def)

lemma fetch_new_client:
  "500 \<le> now \<Longrightarrow>
     fetchOSMFacilities (new_client now ((l, a) # rest)) =
       (case a of Inl m \<Rightarrow> Inl (''Failed to fetch OSM data: '' @ m) | Inr els \<Rightarrow> Inr els,
        \<lparr> lastRequestTime = now, clock = now + int l, sent = [now], overpass = rest \<rparr>)"
  by (simp add: fetchOSMFacilities_def rateLimitedRequest_def enter_gate_def pass_gate_def
      new_client_def rateLimitMs_def Let_def split: sum.splits)

lemma toilet_node_status:
  "\<not> skipped (toilet_node i la lo)"
  "create_fails (toilet_node i la lo) \<longleftrightarrow> isl (to_decimal 10 8 la) \<or> isl (to_decimal 11 8 lo)"
  "create_succeeds (toilet_node i la lo)
     \<longleftrightarrow> \<not> isl (to_decimal 10 8 la) \<and> \<not> isl (to_decimal 11 8 lo)"
  by (simp_all add: skipped_def create_fails_def create_succeeds_def parse_toilet_node
      schema_accepts_def toilet_candidate_def to_varchar_def opt_coerce_def to_decimal_exact
      facility_type_ids_def)

lemma batch_status:
  "filter skipped batch_with_bad_latitude = []"
  "length (filter create_fails batch_with_bad_latitude) = 1"
  "length (filter create_succeeds batch_with_bad_latitude) = 4"
  "length (filter create_succeeds valid_batch) = 4"
  by (simp_all add: batch_with_bad_latitude_def valid_batch_def toilet_node_status
      to_decimal_def pg_round_def)

text \<open>
  C4, as stated, has the result report \<open>failed = 1\<close>. The result of the run over the
  five-element batch with one failing element is the number 4, the same as the result of
  the run over the four valid elements alone, where nothing failed.
\<close>

theorem import_result_does_not_report_failures:
  "fst (importOSMFacilities (new_client 1000 [(120, Inr batch_with_bad_latitude)])
          (empty_db (\<lambda>n. n + 10))) = Inr 4
   \<and> fst (importOSMFacilities (new_client 1000 [(120, Inr valid_batch)])
          (empty_db (\<lambda>n. n + 10))) = Inr 4"
proof -
  have "fetchOSMFacilities (new_client 1000 [(120, Inr batch_with_bad_latitude)])
       = (Inr batch_with_bad_latitude,
          \<lparr> lastRequestTime = 1000, clock = 1120, sent = [1000], overpass = [] \<rparr>)"
    by (simp add: fetch_new_client)
  from fetch_success [OF this, of "empty_db (\<lambda>n. n + 10)"]
    import_elements_fresh [OF uuid_fresh_empty, of batch_with_bad_latitude 0]
  have 1: "fst (importOSMFacilities (new_client 1000 [(120, Inr batch_with_bad_latitude)])
          (empty_db (\<lambda>n. n + 10))) = Inr 4"
    by (simp add: batch_status)
  have "fetchOSMFacilities (new_client 1000 [(120, Inr valid_batch)])
       = (Inr valid_batch,
          \<lparr> lastRequestTime = 1000, clock = 1120, sent = [1000], overpass = [] \<rparr>)"
    by (simp add: fetch_new_client)
  from fetch_success [OF this, of "empty_db (\<lambda>n. n + 10)"]
    import_elements_fresh [OF uuid_fresh_empty, of valid_batch 0]
  have 2: "fst (importOSMFacilities (new_client 1000 [(120, Inr valid_batch)])
          (empty_db (\<lambda>n. n + 10))) = Inr 4"
    by (simp add: batch_status)
  show ?thesis using 1 2 by simp
qed

text \<open>C4, at a batch of five nodes, one of them with latitude 999: four are imported.\<close>

theorem import_continues_after_failed_create_witness:
  "uuid_fresh (empty_db (\<lambda>n. n + 10))
   \<and> fetchOSMFacilities (new_client 1000 [(120, Inr batch_with_bad_latitude)])
       = (Inr batch_with_bad_latitude,
          \<lparr> lastRequestTime = 1000, clock = 1120, sent = [1000], overpass = [] \<rparr>)
   \<and> filter skipped batch_with_bad_latitude = []
   \<and> length (filter create_fails batch_with_bad_latitude) = 1
   \<and> fst (importOSMFacilities (new_client 1000 [(120, Inr batch_with_bad_latitude)])
          (empty_db (\<lambda>n. n + 10))) = Inr 4
   \<and> fst (syncOSMDataForArea (new_client 1000 [(120, Inr batch_with_bad_latitude)])
          (empty_db (\<lambda>n. n + 10))) = Inr (5, 4)"
proof -
  have f: "fetchOSMFacilities (new_client 1000 [(120, Inr batch_with_bad_latitude)])
       = (Inr batch_with_bad_latitude,
          \<lparr> lastRequestTime = 1000, clock = 1120, sent = [1000], overpass = [] \<rparr>)"
    by (simp add: fetch_new_client)
  have l: "length batch_with_bad_latitude = 5" by (simp add: batch_with_bad_latitude_def)
  from import_continues_after_failed_create [OF uuid_fresh_empty f batch_status(1,2)]
    uuid_fresh_empty f batch_status(1,2) l
  show ?thesis by simp
qed

lemma string_of_nat_101: "string_of_nat 101 = ''101''"
  by code_simp

lemma fetch_second:
  "fetchOSMFacilities \<lparr> lastRequestTime = 1000, clock = 1120, sent = [1000],
       overpass = [(120, Inr els)] \<rparr>
     = (Inr els, \<lparr> lastRequestTime = 1500, clock = 1620, sent = [1000, 1500], overpass = [] \<rparr>)"
  by (simp add: fetchOSMFacilities_def rateLimitedRequest_def enter_gate_def pass_gate_def
      rateLimitMs_def Let_def)

lemma import_single:
  "k + 10 \<notin> set (map id_col rows) \<Longrightarrow>
   import_elements \<lparr> facilities = rows, uuid_source = (\<lambda>n. n + 10), uuid_draws = k \<rparr>
       [toilet_node 101 52.52 13.405] 0
     = (\<lparr> facilities = rows @ [new_row (k + 10) (toilet_candidate 101 \<lparr> lat = 52.52, lng = 13.405 \<rparr>)],
          uuid_source = (\<lambda>n. n + 10), uuid_draws = Suc k \<rparr>, 1)"
  by (simp add: parse_toilet_node createFacility_def Let_def insert_error_toilet
      to_decimal_def pg_round_def)

text \<open>
  C2, as stated, has the second run import nothing. One node imported twice into the
  empty store: both runs report 1, and the store then has two live rows, with ids 10
  and 11, for the external id (osm, node/101).
\<close>

theorem second_import_duplicates_facility:
  "fst (import_twice
          (new_client 1000 [(120, Inr [toilet_node 101 52.52 13.405]),
                            (120, Inr [toilet_node 101 52.52 13.405])])
          (empty_db (\<lambda>n. n + 10))) = Inr 1
   \<and> fst (snd (import_twice
          (new_client 1000 [(120, Inr [toilet_node 101 52.52 13.405]),
                            (120, Inr [toilet_node 101 52.52 13.405])])
          (empty_db (\<lambda>n. n + 10)))) = Inr 1
   \<and> map id_col (live_with_external_id (snd (snd (import_twice
          (new_client 1000 [(120, Inr [toilet_node 101 52.52 13.405]),
                            (120, Inr [toilet_node 101 52.52 13.405])])
          (empty_db (\<lambda>n. n + 10))))) (''osm'', ''node/101'')) = [10, 11]"
proof -
  let ?els = "[toilet_node 101 52.52 13.405]"
  let ?c0 = "new_client 1000 [(120, Inr ?els), (120, Inr ?els)]"
  let ?c1 = "\<lparr> lastRequestTime = 1000, clock = 1120, sent = [1000],
       overpass = [(120, Inr ?els)] \<rparr>"
  let ?c2 = "\<lparr> lastRequestTime = 1500, clock = 1620, sent = [1000, 1500], overpass = [] \<rparr>"
  let ?f = "toilet_candidate 101 \<lparr> lat = 52.52, lng = 13.405 \<rparr>"
  let ?db1 = "\<lparr> facilities = [new_row 10 ?f], uuid_source = (\<lambda>n. n + 10), uuid_draws = Suc 0 \<rparr>"
  let ?db2 = "\<lparr> facilities = [new_row 10 ?f, new_row 11 ?f], uuid_source = (\<lambda>n. n + 10),
       uuid_draws = Suc (Suc 0) \<rparr>"
  have f1: "fetchOSMFacilities ?c0 = (Inr ?els, ?c1)" by (simp add: fetch_new_client)
  have l1: "import_elements (empty_db (\<lambda>n. n + 10)) ?els 0 = (?db1, 1)"
    using import_single [of 0 "[]"] by (simp add: empty_db_def)
  have r1: "importOSMFacilities ?c0 (empty_db (\<lambda>n. n + 10)) = (Inr 1, ?c1, ?db1)"
    using fetch_success [OF f1, of "empty_db (\<lambda>n. n + 10)"] l1 by simp
  have l2: "import_elements ?db1 ?els 0 = (?db2, 1)"
    using import_single [of "Suc 0" "[new_row 10 ?f]"] by (simp add: new_row_fields)
  have r2: "importOSMFacilities ?c1 ?db1 = (Inr 1, ?c2, ?db2)"
    using fetch_success [OF fetch_second, of ?els ?db1] l2 by simp
  have tw: "import_twice ?c0 (empty_db (\<lambda>n. n + 10)) = (Inr 1, Inr 1, ?db2)"
    by (simp only: import_twice_def r1 r2 prod.case)
  have "map id_col (live_with_external_id ?db2 (''osm'', ''node/101'')) = [10, 11]"
    by (simp add: live_with_external_id_def new_row_def toilet_candidate_def string_of_nat_101)
  with tw show ?thesis by simp
qed

text \<open>C2, at the batch of four valid nodes: both runs import four.\<close>

theorem reimport_creates_duplicates_witness:
  "uuid_fresh (empty_db (\<lambda>n. n + 10))
   \<and> fetchOSMFacilities (new_client 1000 [(120, Inr valid_batch)])
       = (Inr valid_batch, \<lparr> lastRequestTime = 1000, clock = 1120, sent = [1000], overpass = [] \<rparr>)
   \<and> fetchOSMFacilities (new_client 9000 [(80, Inr valid_batch)])
       = (Inr valid_batch, \<lparr> lastRequestTime = 9000, clock = 9080, sent = [9000], overpass = [] \<rparr>)
   \<and> fst (importOSMFacilities (new_client 1000 [(120, Inr valid_batch)])
            (empty_db (\<lambda>n. n + 10))) = Inr 4
   \<and> fst (importOSMFacilities (new_client 9000 [(80, Inr valid_batch)])
            (snd (snd (importOSMFacilities (new_client 1000 [(120, Inr valid_batch)])
               (empty_db (\<lambda>n. n + 10)))))) = Inr 4"
proof -
  let ?c1 = "new_client 1000 [(120, Inr valid_batch)]"
  let ?c2 = "new_client 9000 [(80, Inr valid_batch)]"
  let ?db = "empty_db (\<lambda>n. n + 10)"
  have f1: "fetchOSMFacilities ?c1
       = (Inr valid_batch, \<lparr> lastRequestTime = 1000, clock = 1120, sent = [1000], overpass = [] \<rparr>)"
    by (simp add: fetch_new_client)
  have f2: "fetchOSMFacilities ?c2
       = (Inr valid_batch, \<lparr> lastRequestTime = 9000, clock = 9080, sent = [9000], overpass = [] \<rparr>)"
    by (simp add: fetch_new_client)
  let ?x = "importOSMFacilities ?c1 ?db"
  let ?y = "importOSMFacilities ?c2 (snd (snd ?x))"
  have i1: "?x = (fst ?x, fst (snd ?x), snd (snd ?x))" by simp
  have i2: "?y = (fst ?y, fst (snd ?y), snd (snd ?y))" by simp
  from reimport_creates_duplicates [OF uuid_fresh_empty f1 f2 i1 i2] batch_status(4)
    uuid_fresh_empty f1 f2
  show ?thesis by simp
qed

text \<open>
  C5, as stated, has the fetch retried after a transport failure. The provider fails
  the first request and would answer the second: one request is posted (at time 1000),
  the fetch returns the error, and the second answer is never asked for.
\<close>

theorem fetch_gives_up_after_first_failure:
  "fetchOSMFacilities
     (new_client 1000 [(50, Inl ''socket hang up''), (50, Inr valid_batch)])
   = (Inl ''Failed to fetch OSM data: socket hang up'',
      \<lparr> lastRequestTime = 1000, clock = 1050, sent = [1000],
        overpass = [(50, Inr valid_batch)] \<rparr>)"
  by (simp add: fetch_new_client)

text \<open>C5, at a provider that fails once and would answer the next request.\<close>

theorem fetch_not_retried_witness:
  "overpass (new_client 1000 [(50, Inl ''socket hang up''), (50, Inr valid_batch)])
     = (50, Inl ''socket hang up'') # [(50, Inr valid_batch)]
   \<and> fst (fetchOSMFacilities
        (new_client 1000 [(50, Inl ''socket hang up''), (50, Inr valid_batch)]))
      = Inl ''Failed to fetch OSM data: socket hang up''
   \<and> length (sent (snd (fetchOSMFacilities
        (new_client 1000 [(50, Inl ''socket hang up''), (50, Inr valid_batch)])))) = 1
   \<and> fst (importOSMFacilities
        (new_client 1000 [(50, Inl ''socket hang up''), (50, Inr valid_batch)])
        (empty_db (\<lambda>n. n + 10)))
      = Inl ''Failed to fetch OSM data: socket hang up''"
  using fetch_not_retried [of "new_client 1000 [(50, Inl ''socket hang up''), (50, Inr valid_batch)]"
      50 "''socket hang up''" "[(50, Inr valid_batch)]" "empty_db (\<lambda>n. n + 10)"]
  by (simp add: new_client_def)

text \<open>
  C9: consecutive requests through the rate gate are at least 500 ms apart. The code
  keeps this for a call on its own and breaks it for calls that overlap: a request is
  posted at time 1000; two more calls enter the gate at 1100 and 1200, while no timer has
  fired yet. Both read the same \<open>lastRequestTime\<close>, both timers are due at 1500, and both
  requests are posted at 1500, 0 ms apart.
\<close>

theorem overlapping_calls_post_together:
  "map_option (sent \<circ> fst)
     (run_calls [Call 1000, Call 1100, Call 1200, Wake 1500, Wake 1500] (new_client 1000 []) [])
   = Some [1000, 1500, 1500]"
  by (simp add: enter_gate_def pass_gate_def rateLimitMs_def new_client_def Let_def)

section \<open>Properties of the search route\<close>

lemmas parse_defs =
  parseFloat_def parseInt_def strip_sign_def is_space_def is_digit_def radix_digit_def
  digits_value_def exponent_part_def Let_def

lemma parseFloat_samples:
  "parseFloat ''52.5'' = Num (lat at_center)" "parseFloat ''13.375'' = Num (lng at_center)"
  "parseFloat ''91'' = Num 91" "parseFloat ''90.00000000000000001'' = Num 90"
proof -
  have "parseFloat ''52.5'' = to_double 52.5" by (simp add: parse_defs)
  then show "parseFloat ''52.5'' = Num (lat at_center)"
    by (simp only: double_52_5) (simp add: at_center_def)
  have "parseFloat ''13.375'' = to_double 13.375" by (simp add: parse_defs)
  then show "parseFloat ''13.375'' = Num (lng at_center)"
    by (simp only: double_13_375) (simp add: at_center_def)
  have "parseFloat ''91'' = to_double 91" by (simp add: parse_defs)
  then show "parseFloat ''91'' = Num 91" by (simp only: double_91)
  have "parseFloat ''90.00000000000000001'' = to_double 90.00000000000000001"
    by (simp add: parse_defs)
  then show "parseFloat ''90.00000000000000001'' = Num 90" by (simp only: double_above_90)
qed

lemma parseInt_samples:
  "parseInt ''20000000'' = Num 20000000" "parseInt ''1000'' = Num 1000"
  "parseInt ''1'' = Num 1" "parseInt ''-1'' = Num (- 1)" "parseInt ''abc'' = NaN"
  "parseInt ''9223372036854775807'' = Num 9223372036854775808"
proof -
  have "parseInt ''20000000'' = to_double 20000000" by (simp add: parse_defs)
  then show "parseInt ''20000000'' = Num 20000000" by (simp only: double_20000000)
  have "parseInt ''1000'' = to_double 1000" by (simp add: parse_defs)
  then show "parseInt ''1000'' = Num 1000" by (simp only: double_1000)
  have "parseInt ''1'' = to_double 1" by (simp add: parse_defs)
  then show "parseInt ''1'' = Num 1" by (simp only: double_1)
  have "parseInt ''-1'' = to_double (- 1)" by (simp add: parse_defs)
  then show "parseInt ''-1'' = Num (- 1)" by (simp only: double_1)
  show "parseInt ''abc'' = NaN" by (simp add: parse_defs)
  have "parseInt ''9223372036854775807'' = to_double 9223372036854775807"
    by (simp add: parse_defs)
  then show "parseInt ''9223372036854775807'' = Num 9223372036854775808"
    by (simp only: double_largest_bigint)
qed

text \<open>The route, case by case.\<close>

lemma facilities_nearby_cases:
  "facilities_nearby d db q =
     (case (q_lat q, q_lng q) of
        (Some la, Some lo) \<Rightarrow>
          if la = [] \<or> lo = [] then Status400 ''Missing required parameters''
          else (case check_coordinates la lo of
                  Inl e \<Rightarrow> Status400 e
                | Inr (latNum, lngNum) \<Rightarrow> run_search d db latNum lngNum q)
      | _ \<Rightarrow> Status400 ''Missing required parameters'')"
  by (simp add: facilities_nearby_def)

lemma run_search_not_rejected: "\<not> rejected (run_search d db latNum lngNum q)"
  by (simp add: run_search_def rejected_def split: sum.splits)

lemma check_coordinates_iff:
  "check_coordinates la lo = Inr (x, y) \<longleftrightarrow>
     parseFloat la = Num x \<and> parseFloat lo = Num y
     \<and> - 90 \<le> x \<and> x \<le> 90 \<and> - 180 \<le> y \<and> y \<le> 180"
  by (cases "parseFloat la"; cases "parseFloat lo") (auto simp: check_coordinates_def)

lemma request_coordinates_Some:
  "request_coordinates q = Some (x, y) \<longleftrightarrow>
     (\<exists>la lo. q_lat q = Some la \<and> q_lng q = Some lo \<and> la \<noteq> [] \<and> lo \<noteq> []
        \<and> check_coordinates la lo = Inr (x, y))"
  unfolding check_coordinates_iff
  by (auto simp: request_coordinates_def split: option.splits jsnum.splits if_splits)

lemma accepted_request:
  "request_coordinates q = Some (x, y) \<Longrightarrow> facilities_nearby d db q = run_search d db x y q"
  by (auto simp: request_coordinates_Some facilities_nearby_cases)

lemma rejected_iff: "rejected (facilities_nearby d db q) \<longleftrightarrow> request_coordinates q = None"
proof (cases "request_coordinates q")
  case None
  have "rejected (facilities_nearby d db q)"
  proof (cases "q_lat q")
    case lat_None: None
    then show ?thesis by (simp add: facilities_nearby_cases rejected_def)
  next
    case (Some la)
    show ?thesis
    proof (cases "q_lng q")
      case lng_None: None
      with Some show ?thesis by (simp add: facilities_nearby_cases rejected_def)
    next
      case lo: (Some lo)
      show ?thesis
      proof (cases "la = [] \<or> lo = []")
        case True
        with Some lo show ?thesis by (auto simp: facilities_nearby_cases rejected_def)
      next
        case False
        have "isl (check_coordinates la lo)"
        proof (rule ccontr)
          assume "\<not> isl (check_coordinates la lo)"
          then obtain x y where "check_coordinates la lo = Inr (x, y)"
            by (cases "check_coordinates la lo") auto
          with Some lo False have "request_coordinates q = Some (x, y)"
            by (auto simp: request_coordinates_Some)
          with None show False by simp
        qed
        with Some lo False show ?thesis
          by (cases "check_coordinates la lo") (auto simp: facilities_nearby_cases rejected_def)
      qed
    qed
  qed
  with None show ?thesis by simp
next
  case (Some xy)
  then obtain x y where "request_coordinates q = Some (x, y)" by (cases xy) simp
  from accepted_request [OF this] Some show ?thesis by (simp add: run_search_not_rejected)
qed











text \<open>The sample requests.\<close>

lemma at_center_eta: "\<lparr> lat = lat at_center, lng = lng at_center \<rparr> = at_center"
  by (simp add: at_center_def)

lemma coordinates_at_center:
  "q_lat q = Some ''52.5'' \<Longrightarrow> q_lng q = Some ''13.375'' \<Longrightarrow>
     request_coordinates q = Some (lat at_center, lng at_center)"
  by (simp add: request_coordinates_def parseFloat_samples) (simp add: at_center_def)

lemmas sample_requests =
  request_at_center_def request_whole_earth_def request_second_page_def
  request_negative_limit_def request_negative_both_def request_bad_offset_def
  request_largest_limit_def request_not_accessible_def

lemma sample_coordinates:
  "request_coordinates request_whole_earth = Some (lat at_center, lng at_center)"
  "request_coordinates request_second_page = Some (lat at_center, lng at_center)"
  "request_coordinates request_negative_limit = Some (lat at_center, lng at_center)"
  "request_coordinates request_negative_both = Some (lat at_center, lng at_center)"
  "request_coordinates request_bad_offset = Some (lat at_center, lng at_center)"
  "request_coordinates request_largest_limit = Some (lat at_center, lng at_center)"
  "request_coordinates request_not_accessible = Some (lat at_center, lng at_center)"
  by (rule coordinates_at_center; simp add: sample_requests)+











lemma filter_value_parsed:
  "q_wheelchairAccessible q = Some (if b then ''true'' else ''false'') \<Longrightarrow>
     sp_wheelchairAccessible (searchParams latNum lngNum q) = Some b"
  by (simp add: searchParams_def)

lemma status200_from_search:
  assumes "facilities_nearby d db q = Status200 res n loc r"
  obtains latNum lngNum where
    "searchNearbyFacilities d db (searchParams latNum lngNum q) = Inr res"
proof -
  from assms have "\<not> rejected (facilities_nearby d db q)" by (simp add: rejected_def)
  then obtain latNum lngNum where "request_coordinates q = Some (latNum, lngNum)"
    by (auto simp: rejected_iff)
  then have "facilities_nearby d db q = run_search d db latNum lngNum q"
    by (rule accepted_request)
  with assms have "searchNearbyFacilities d db (searchParams latNum lngNum q) = Inr res"
    by (simp add: run_search_def split: sum.splits)
  then show thesis by (rule that)
qed

text \<open>
  C10: when a \<open>wheelchairAccessible\<close> filter value is supplied, to the search function or
  as \<open>true\<close> or \<open>false\<close> in the request, every facility returned has exactly that stored
  value; a facility whose stored value is unknown (\<open>NULL\<close>) is never returned, also
  when the filter is \<open>false\<close>.
\<close>

theorem wheelchair_filter_excludes_unknown:
  "(sp_wheelchairAccessible p = Some b \<and> searchNearbyFacilities d db p = Inr res \<longrightarrow>
      (\<forall>x \<in> set res. wheelchairAccessible (fw_accessibility x) = Some b))
   \<and> (q_wheelchairAccessible q = Some (if b then ''true'' else ''false'')
        \<and> facilities_nearby d db q = Status200 res' n loc r \<longrightarrow>
      (\<forall>x \<in> set res'. wheelchairAccessible (fw_accessibility x) = Some b))"
proof -
  have service: "wheelchairAccessible (fw_accessibility x) = Some b"
    if "sp_wheelchairAccessible p = Some b" "searchNearbyFacilities d db p = Inr res" "x \<in> set res"
    for p res x
  proof -
    from that(2,3) obtain r where r: "satisfies_query d p r"
      "x = row_to_facility (r, d (location_col r) (search_center p))"
      by (rule search_result_from_rows)
    from r(1) that(1) have "wheelchair_accessible r = Some b"
      by (simp add: satisfies_query_def wheelchair_filter_ok_def)
    then show ?thesis by (simp add: r(2) wheelchair_row_to_facility)
  qed
  have route: "wheelchairAccessible (fw_accessibility x) = Some b"
    if "q_wheelchairAccessible q = Some (if b then ''true'' else ''false'')"
      "facilities_nearby d db q = Status200 res' n loc r" "x \<in> set res'" for x
  proof -
    from that(2) obtain latNum lngNum where
      "searchNearbyFacilities d db (searchParams latNum lngNum q) = Inr res'"
      by (rule status200_from_search)
    from service [OF filter_value_parsed [OF that(1)] this that(3)] show ?thesis .
  qed
  show ?thesis using service route by blast
qed

lemma unknown_candidate_fields:
  "location unknown_wheelchair_candidate = at_center"
  "wheelchairAccessible (accessibility unknown_wheelchair_candidate) = None"
  "facilityTypeId unknown_wheelchair_candidate = ''toilet''"
  by (simp_all add: unknown_wheelchair_candidate_def toilet_candidate_def)

lemma facilities_mixed_db:
  "facilities (mixed_db (\<lambda>n. n + 10)) =
     [new_row 10 (toilet_candidate 101 at_center), new_row 11 (toilet_candidate 102 nearby),
      new_row 12 (toilet_candidate 103 far_away), new_row 13 unknown_wheelchair_candidate]"
proof -
  have d: "uuid_draws (berlin_db (\<lambda>n. n + 10)) = 3"
    "uuid_source (berlin_db (\<lambda>n. n + 10)) = (\<lambda>n. n + 10)"
    by (simp_all add: berlin_db_def empty_db_def createFacility_def Let_def insert_error_toilet
        sample_locations_fit)
  have "insert_error (berlin_db (\<lambda>n. n + 10)) 13 unknown_wheelchair_candidate = None"
    by (simp add: insert_error_def unknown_wheelchair_candidate_def toilet_candidate_def
        to_varchar_def opt_coerce_def to_decimal_exact facility_type_ids_def sample_locations_fit
        facilities_berlin_db new_row_fields)
  then show ?thesis
    by (simp add: mixed_db_def createFacility_def Let_def d facilities_berlin_db)
qed

lemma search_mixed_not_accessible:
  "searchNearbyFacilities greatCircleDistance (mixed_db (\<lambda>n. n + 10)) berlin_not_accessible =
     Inr (map row_to_facility
       [(new_row 10 (toilet_candidate 101 at_center), 0),
        (new_row 11 (toilet_candidate 102 nearby), 159275 * pi / 1152)])"
  by (simp add: searchNearbyFacilities_page [OF berlin_not_accessible_fields(5,6)]
      berlin_not_accessible_fields facilities_mixed_db
      matching_rows_def where_clause_iff satisfies_query_def within_radius_def type_filter_ok_def
      wheelchair_filter_ok_def order_by_distance_def new_row_fields berlin_distances
      pi_bounds toilet_candidate_fields unknown_candidate_fields)

lemma params_not_accessible:
  "searchParams (lat at_center) (lng at_center) request_not_accessible = berlin_not_accessible"
  by (simp add: searchParams_def request_not_accessible_def request_at_center_def
      berlin_not_accessible_def berlin_query_def parse_if_given_def truthy_def parseInt_samples)

lemma route_not_accessible:
  "facilities_nearby d db request_not_accessible
     = run_search d db (lat at_center) (lng at_center) request_not_accessible"
  by (rule accepted_request [OF sample_coordinates(7)])

lemma nearby_not_accessible:
  "facilities_nearby greatCircleDistance (mixed_db (\<lambda>n. n + 10)) request_not_accessible
     = Status200
         (map row_to_facility
           [(new_row 10 (toilet_candidate 101 at_center), 0),
            (new_row 11 (toilet_candidate 102 nearby), 159275 * pi / 1152)])
         2 at_center (Num 1000)"
proof -
  have "sp_radius berlin_not_accessible = Some (Num 1000)"
    by (simp add: berlin_not_accessible_def berlin_query_def)
  then show ?thesis
    by (simp add: route_not_accessible run_search_def params_not_accessible
        search_mixed_not_accessible radius_or_default_def at_center_eta)
qed

text \<open>
  C10, at the sample store with a fourth facility of unknown wheelchair accessibility at
  the center: with the filter \<open>false\<close> the search and the route return the two facilities
  marked not accessible, and not the fourth, which is in range.
\<close>

theorem wheelchair_filter_excludes_unknown_witness:
  "sp_wheelchairAccessible berlin_not_accessible = Some False
   \<and> searchNearbyFacilities greatCircleDistance (mixed_db (\<lambda>n. n + 10)) berlin_not_accessible =
       Inr (map row_to_facility
         [(new_row 10 (toilet_candidate 101 at_center), 0),
          (new_row 11 (toilet_candidate 102 nearby), 159275 * pi / 1152)])
   \<and> q_wheelchairAccessible request_not_accessible = Some ''false''
   \<and> facilities_nearby greatCircleDistance (mixed_db (\<lambda>n. n + 10)) request_not_accessible
       = Status200
           (map row_to_facility
             [(new_row 10 (toilet_candidate 101 at_center), 0),
              (new_row 11 (toilet_candidate 102 nearby), 159275 * pi / 1152)])
           2 at_center (Num 1000)
   \<and> wheelchairAccessible (fw_accessibility
         (row_to_facility (new_row 10 (toilet_candidate 101 at_center), 0))) = Some False
   \<and> wheelchairAccessible (fw_accessibility
         (row_to_facility (new_row 11 (toilet_candidate 102 nearby), 159275 * pi / 1152)))
       = Some False
   \<and> new_row 13 unknown_wheelchair_candidate \<in> set (facilities (mixed_db (\<lambda>n. n + 10)))
   \<and> wheelchair_accessible (new_row 13 unknown_wheelchair_candidate) = None
   \<and> satisfies_query greatCircleDistance berlin_query (new_row 13 unknown_wheelchair_candidate)"
proof -
  have 1: "sp_wheelchairAccessible berlin_not_accessible = Some False"
    by (rule berlin_not_accessible_fields(4))
  have 2: "q_wheelchairAccessible request_not_accessible = Some (if False then ''true'' else ''false'')"
    by (simp add: request_not_accessible_def)
  note T = wheelchair_filter_excludes_unknown [where b = False and p = berlin_not_accessible and d = greatCircleDistance
      and db = "mixed_db (\<lambda>n. n + 10)" and q = request_not_accessible]
  from T 1 search_mixed_not_accessible
  have 3: "\<forall>x \<in> set (map row_to_facility
             [(new_row 10 (toilet_candidate 101 at_center), 0),
              (new_row 11 (toilet_candidate 102 nearby), 159275 * pi / 1152)]).
         wheelchairAccessible (fw_accessibility x) = Some False"
    by blast
  from T 2 nearby_not_accessible
  have 4: "\<forall>x \<in> set (map row_to_facility
             [(new_row 10 (toilet_candidate 101 at_center), 0),
              (new_row 11 (toilet_candidate 102 nearby), 159275 * pi / 1152)]).
         wheelchairAccessible (fw_accessibility x) = Some False"
    by blast
  have 5: "new_row 13 unknown_wheelchair_candidate \<in> set (facilities (mixed_db (\<lambda>n. n + 10)))"
    by (simp add: facilities_mixed_db)
  have 6: "wheelchair_accessible (new_row 13 unknown_wheelchair_candidate) = None"
    by (simp add: new_row_fields unknown_candidate_fields)
  have 7: "satisfies_query greatCircleDistance berlin_query
      (new_row 13 unknown_wheelchair_candidate)"
    by (simp add: satisfies_query_def within_radius_def type_filter_ok_def
      wheelchair_filter_ok_def berlin_query_fields new_row_fields unknown_candidate_fields
      berlin_distances)
  from 1 2 3 4 5 6 7 search_mixed_not_accessible nearby_not_accessible show ?thesis by simp
qed

end
